theory Spec2Isabelle
  imports Main "HOL-Library.AList" "HOL-Library.Sublist"
begin

section \<open>Shared data model\<close>

text \<open>
  Python exceptions are values: every \<^verbatim>\<open>raise\<close> of the source is an \<open>Inl\<close> carrying
  the text that \<^verbatim>\<open>str(e)\<close> would give.
\<close>

datatype error = Exception string

fun str_of_error :: "error \<Rightarrow> string" where
  "str_of_error (Exception m) = m"

text \<open>
  A tweet as \<^verbatim>\<open>TwitterAdapter.get_user_tweets\<close> returns it. Timestamps are integers
  (microseconds of a naive local \<^verbatim>\<open>datetime\<close>).
\<close>

record tweet =
  tweet_id :: string
  tweet_text :: string
  created_at :: string
  likes :: int
  retweets :: int
  url :: string

record interactions =
  likers :: "string list"
  retweeters :: "string list"

text \<open>
  The adapter's two read operations used by the analysis pipeline. Both start with
  \<^verbatim>\<open>_check_authenticated()\<close>, which raises, so both can fail.
\<close>

record twitter_reader =
  get_user_tweets :: "string \<Rightarrow> nat \<Rightarrow> int \<Rightarrow> error + tweet list"
  get_tweet_interactions :: "string \<Rightarrow> error + interactions"

subsection \<open>Strings\<close>

text \<open>
  Strings are lists of 8-bit characters: a Python \<^verbatim>\<open>str\<close> is read as its UTF-8 bytes, on
  which \<^verbatim>\<open>p in s\<close> is the same test as on code points. \<^verbatim>\<open>str.lower()\<close> belongs to the
  Python library; the keyword filter takes it as the parameter \<open>str_lower\<close>, any function
  on strings. \<open>ascii_lower\<close> folds the letters A to Z and nothing else: it is what
  \<^verbatim>\<open>str.lower()\<close> does where the source compares the folded text with the ASCII words
  \<^verbatim>\<open>yes\<close> and \<^verbatim>\<open>no\<close> (no other character folds to one of their letters), and it is the
  instance used in the examples. \<^verbatim>\<open>str.strip()\<close> is modelled on the whitespace characters
  of the ASCII range.
\<close>

definition ascii_lower_char :: "char \<Rightarrow> char" where
  "ascii_lower_char c =
     (let n = (of_char c :: nat) in if 65 \<le> n \<and> n \<le> 90 then char_of (n + 32) else c)"

definition ascii_lower :: "string \<Rightarrow> string" where
  "ascii_lower s = map ascii_lower_char s"

text \<open>Python's \<^verbatim>\<open>s.strip(chars)\<close>: every leading and every trailing character of the set goes.\<close>

definition strip_chars :: "(char \<Rightarrow> bool) \<Rightarrow> string \<Rightarrow> string" where
  "strip_chars P s = rev (dropWhile P (rev (dropWhile P s)))"

definition is_space :: "char \<Rightarrow> bool" where
  "is_space c = (let n = (of_char c :: nat) in (9 \<le> n \<and> n \<le> 13) \<or> (28 \<le> n \<and> n \<le> 32))"

definition strip_ws :: "string \<Rightarrow> string" where
  "strip_ws s = strip_chars is_space s"

text \<open>Python's \<^verbatim>\<open>p in s\<close> on strings: \<open>p\<close> occurs in \<open>s\<close> as a contiguous piece.\<close>

fun contains :: "string \<Rightarrow> string \<Rightarrow> bool" where
  "contains p [] = (p = [])"
| "contains p (c # cs) = (prefix p (c # cs) \<or> contains p cs)"

text \<open>Decimal text of an integer, as an f-string prints it.\<close>

fun str_of_nat :: "nat \<Rightarrow> string" where
  "str_of_nat n =
     (if n < 10 then [char_of (48 + n)] else str_of_nat (n div 10) @ [char_of (48 + n mod 10)])"

definition str_of_int :: "int \<Rightarrow> string" where
  "str_of_int i = (if i < 0 then CHR ''-'' # str_of_nat (nat (- i)) else str_of_nat (nat i))"

section \<open>Interaction Mapper (interaction\_mapper.py)\<close>

text \<open>
  \<^verbatim>\<open>interaction_scores = defaultdict(int)\<close>: an insertion-ordered dictionary, here an
  association list whose keys stay distinct. \<^verbatim>\<open>d[k] += n\<close> updates an existing key in
  place and appends a new key at the end.
\<close>

type_synonym scores = "(string \<times> int) list"

definition score_get :: "scores \<Rightarrow> string \<Rightarrow> int" where
  "score_get sc u = (case map_of sc u of None \<Rightarrow> 0 | Some v \<Rightarrow> v)"

definition score_add :: "int \<Rightarrow> scores \<Rightarrow> string \<Rightarrow> scores" where
  "score_add n sc u = AList.update u (score_get sc u + n) sc"

text \<open>The body of the loop over one seed user's tweets, lines 80-92. An exception of
  \<^verbatim>\<open>get_tweet_interactions\<close> leaves the loop; the scores added so far stay.\<close>

fun score_tweets :: "twitter_reader \<Rightarrow> tweet list \<Rightarrow> scores \<Rightarrow> scores" where
  "score_tweets tw [] sc = sc"
| "score_tweets tw (t # ts) sc =
     (case get_tweet_interactions tw (tweet_id t) of
        Inl e \<Rightarrow> sc
      | Inr ia \<Rightarrow>
          score_tweets tw ts
            (foldl (score_add 2) (foldl (score_add 1) sc (likers ia)) (retweeters ia)))"

text \<open>The loop over the seed users, lines 62-112; \<^verbatim>\<open>except Exception: continue\<close>.\<close>

fun score_seeds :: "twitter_reader \<Rightarrow> int \<Rightarrow> string list \<Rightarrow> scores \<Rightarrow> scores" where
  "score_seeds tw lookback_days [] sc = sc"
| "score_seeds tw lookback_days (seed_username # rest) sc =
     (case get_user_tweets tw seed_username 20 lookback_days of
        Inl e \<Rightarrow> score_seeds tw lookback_days rest sc
      | Inr tweets \<Rightarrow> score_seeds tw lookback_days rest (score_tweets tw tweets sc))"

text \<open>\<^verbatim>\<open>seed.strip('@')\<close>.\<close>

definition strip_at :: "string \<Rightarrow> string" where
  "strip_at s = strip_chars (\<lambda>c. c = CHR ''@'') s"

text \<open>Lines 115-117: \<^verbatim>\<open>interaction_scores.pop(seed.strip('@'), None)\<close> for each seed.\<close>

definition remove_seeds :: "string list \<Rightarrow> scores \<Rightarrow> scores" where
  "remove_seeds seed_users sc = foldl (\<lambda>s seed. AList.delete (strip_at seed) s) sc seed_users"

text \<open>
  \<^verbatim>\<open>sorted(items, key=lambda x: x[1], reverse=True)\<close>: a stable sort by descending score.
\<close>

definition sorted_desc :: "scores \<Rightarrow> scores" where
  "sorted_desc sc = sort_key (\<lambda>x. - snd x) sc"

text \<open>Python's slice \<^verbatim>\<open>xs[:n]\<close>; a negative \<open>n\<close> counts from the end.\<close>

definition slice_to :: "int \<Rightarrow> 'a list \<Rightarrow> 'a list" where
  "slice_to n xs = (if 0 \<le> n then take (nat n) xs else take (nat (int (length xs) + n)) xs)"

record score_entry =
  username :: string
  interaction_score :: int
  last_interaction :: int

text \<open>
  \<^verbatim>\<open>find_top_interacted_users\<close>. Logging and the pacing sleeps have no effect on the
  result and are left out; \<open>now\<close> is the reading of \<^verbatim>\<open>datetime.now()\<close> stored in each entry.
\<close>

definition find_top_interacted_users ::
  "twitter_reader \<Rightarrow> string list \<Rightarrow> int \<Rightarrow> int \<Rightarrow> int \<Rightarrow> score_entry list" where
  "find_top_interacted_users tw seed_users top_n lookback_days now =
     map (\<lambda>(u, s). \<lparr>username = u, interaction_score = s, last_interaction = now\<rparr>)
       (slice_to top_n
          (sorted_desc (remove_seeds seed_users (score_seeds tw lookback_days seed_users []))))"

section \<open>Post Filter (post\_filter.py)\<close>

text \<open>
  A candidate post: the dictionary built at lines 80-89, with the two keys that
  \<^verbatim>\<open>_parse_grok_analysis\<close> adds later (absent until then).
\<close>

record post = tweet +
  post_username :: string
  matched_keywords :: "string list"
  grok_approved :: "bool option"
  grok_reason :: "string option"

text \<open>\<^verbatim>\<open>_matches_keywords\<close> and \<^verbatim>\<open>_get_matched_keywords\<close>, lines 125-151; \<open>str_lower\<close> is
  \<^verbatim>\<open>str.lower\<close>.\<close>

definition matches_keywords :: "(string \<Rightarrow> string) \<Rightarrow> string \<Rightarrow> string list \<Rightarrow> bool" where
  "matches_keywords str_lower txt kws = list_ex (\<lambda>keyword. contains (str_lower keyword) (str_lower txt)) kws"

definition get_matched_keywords :: "(string \<Rightarrow> string) \<Rightarrow> string \<Rightarrow> string list \<Rightarrow> string list" where
  "get_matched_keywords str_lower txt kws = filter (\<lambda>kw. contains (str_lower kw) (str_lower txt)) kws"

definition make_post :: "string \<Rightarrow> tweet \<Rightarrow> string list \<Rightarrow> post" where
  "make_post uname t matched_kw =
     \<lparr>tweet_id = tweet_id t, tweet_text = tweet_text t, created_at = created_at t,
      likes = likes t, retweets = retweets t, url = url t,
      post_username = uname, matched_keywords = matched_kw,
      grok_approved = None, grok_reason = None\<rparr>"

text \<open>
  The loop over one user's tweets, lines 75-93. The length test comes after the append,
  as in the source.
\<close>

fun user_matches ::
  "(string \<Rightarrow> string) \<Rightarrow> string \<Rightarrow> string list \<Rightarrow> int \<Rightarrow> tweet list \<Rightarrow> post list \<Rightarrow> post list" where
  "user_matches str_lower uname kws max_posts_per_user [] acc = acc"
| "user_matches str_lower uname kws max_posts_per_user (t # ts) acc =
     (if matches_keywords str_lower (tweet_text t) kws then
        (let acc' = acc @ [make_post uname t (get_matched_keywords str_lower (tweet_text t) kws)]
         in if int (length acc') \<ge> max_posts_per_user then acc'
            else user_matches str_lower uname kws max_posts_per_user ts acc')
      else user_matches str_lower uname kws max_posts_per_user ts acc)"

text \<open>The loop over the usernames, lines 63-111; a failing fetch skips the user.\<close>

fun keyword_matched_posts ::
  "(string \<Rightarrow> string) \<Rightarrow> twitter_reader \<Rightarrow> string list \<Rightarrow> int \<Rightarrow> int \<Rightarrow> string list \<Rightarrow> post list \<Rightarrow> post list" where
  "keyword_matched_posts str_lower tw kws lookback max_posts_per_user [] matching_posts = matching_posts"
| "keyword_matched_posts str_lower tw kws lookback max_posts_per_user (uname # rest) matching_posts =
     (case get_user_tweets tw uname 50 lookback of
        Inl e \<Rightarrow> keyword_matched_posts str_lower tw kws lookback max_posts_per_user rest matching_posts
      | Inr tweets \<Rightarrow>
          keyword_matched_posts str_lower tw kws lookback max_posts_per_user rest
            (matching_posts @ user_matches str_lower uname kws max_posts_per_user tweets []))"

subsection \<open>The AI gate\<close>

text \<open>
  \<^verbatim>\<open>re.findall\<close> with the pattern
  \<^verbatim>\<open>tweet_id=([^;]+);suitable=([^;]+)(?:;reason=([^\n]+))?\<close>.
  Both \<^verbatim>\<open>[^;]+\<close> groups are followed by a semicolon or by the end of the match, so the
  greedy match is the longest run without a semicolon; the optional part is taken when it
  matches. A group that takes no part is the empty string.
\<close>

fun strip_prefix :: "string \<Rightarrow> string \<Rightarrow> string option" where
  "strip_prefix [] s = Some s"
| "strip_prefix (p # ps) [] = None"
| "strip_prefix (p # ps) (c # cs) = (if p = c then strip_prefix ps cs else None)"

definition not_semi :: "char \<Rightarrow> bool" where
  "not_semi c = (c \<noteq> CHR '';'')"

definition not_newline :: "char \<Rightarrow> bool" where
  "not_newline c = (c \<noteq> CHR 0x0A)"

text \<open>A match starting at the head of the string: its three groups and its length.\<close>

definition match_at :: "string \<Rightarrow> ((string \<times> string \<times> string) \<times> nat) option" where
  "match_at s =
     (case strip_prefix ''tweet_id='' s of
        None \<Rightarrow> None
      | Some r1 \<Rightarrow>
          (let g1 = takeWhile not_semi r1 in
           if g1 = [] then None
           else
             (case strip_prefix '';suitable='' (dropWhile not_semi r1) of
                None \<Rightarrow> None
              | Some r3 \<Rightarrow>
                  (let g2 = takeWhile not_semi r3; n = 9 + length g1 + 10 + length g2 in
                   if g2 = [] then None
                   else
                     (case strip_prefix '';reason='' (dropWhile not_semi r3) of
                        None \<Rightarrow> Some ((g1, g2, []), n)
                      | Some r5 \<Rightarrow>
                          (let g3 = takeWhile not_newline r5 in
                           if g3 = [] then Some ((g1, g2, []), n)
                           else Some ((g1, g2, g3), n + 8 + length g3)))))))"

text \<open>The scan: \<open>k\<close> characters of the last match are still to be skipped.\<close>

fun findall_from :: "nat \<Rightarrow> string \<Rightarrow> (string \<times> string \<times> string) list" where
  "findall_from k [] = []"
| "findall_from (Suc k) (c # cs) = findall_from k cs"
| "findall_from 0 (c # cs) =
     (case match_at (c # cs) of
        None \<Rightarrow> findall_from 0 cs
      | Some (m, n) \<Rightarrow> m # findall_from (n - 1) cs)"

definition findall :: "string \<Rightarrow> (string \<times> string \<times> string) list" where
  "findall s = findall_from 0 s"

text \<open>\<^verbatim>\<open>next((p for p in original_posts if str(p['tweet_id']) == tweet_id), None)\<close>,
  as a position in the list.\<close>

fun find_position :: "('a \<Rightarrow> bool) \<Rightarrow> 'a list \<Rightarrow> nat option" where
  "find_position P [] = None"
| "find_position P (x # xs) =
     (if P x then Some 0 else map_option Suc (find_position P xs))"

text \<open>
  The loop of \<^verbatim>\<open>_parse_grok_analysis\<close>, lines 245-260. The source writes
  \<^verbatim>\<open>grok_approved\<close> and \<^verbatim>\<open>grok_reason\<close> into the dictionary that the original list
  holds and appends that same dictionary, so the model keeps the posts in a store and
  the result as positions in it.
\<close>

fun parse_loop ::
  "(string \<times> string \<times> string) list \<Rightarrow> post list \<Rightarrow> nat list \<Rightarrow> post list \<times> nat list" where
  "parse_loop [] store suitable = (store, suitable)"
| "parse_loop ((g1, g2, g3) # ms) store suitable =
     (let tid = strip_ws g1;
          is_suitable = (ascii_lower (strip_ws g2) = ''yes'');
          reason = strip_ws g3
      in if is_suitable then
           (case find_position (\<lambda>p. tweet_id p = tid) store of
              None \<Rightarrow> parse_loop ms store suitable
            | Some i \<Rightarrow>
                parse_loop ms
                  (store[i := (store ! i)\<lparr>grok_approved := Some True, grok_reason := Some reason\<rparr>])
                  (suitable @ [i]))
         else parse_loop ms store suitable)"

definition parse_grok_analysis :: "string \<Rightarrow> post list \<Rightarrow> post list" where
  "parse_grok_analysis analysis_text original_posts =
     (case parse_loop (findall analysis_text) original_posts [] of
        (store, suitable) \<Rightarrow> map (\<lambda>i. store ! i) suitable)"

text \<open>
  What \<^verbatim>\<open>analyze_tweets_with_grok\<close> returns: \<^verbatim>\<open>{"success": True, "analysis": text}\<close> or
  \<^verbatim>\<open>{"success": False, "error": msg}\<close>; it raises when the adapter is not authenticated.
  The conversational AI is outside the program: a function of the posts and the
  campaign context from which the prompt is built.
\<close>

datatype grok_result = GrokSuccess string | GrokFailure string

record campaign_context =
  ctx_name :: string
  ctx_keywords :: "string list"
  ctx_reply_template :: string
  ctx_target_url :: string

type_synonym grok_analysis = "post list \<Rightarrow> campaign_context \<Rightarrow> error + grok_result"

definition filter_with_grok :: "grok_analysis \<Rightarrow> post list \<Rightarrow> campaign_context \<Rightarrow> post list" where
  "filter_with_grok analyze_tweets_with_grok posts ctx =
     (if posts = [] then []
      else
        (case analyze_tweets_with_grok posts ctx of
           Inl e \<Rightarrow> posts
         | Inr (GrokFailure err) \<Rightarrow> posts
         | Inr (GrokSuccess analysis_text) \<Rightarrow> parse_grok_analysis analysis_text posts))"

text \<open>\<^verbatim>\<open>find_matching_posts\<close>; \<open>None\<close> is the default \<^verbatim>\<open>campaign_context=None\<close>.\<close>

definition find_matching_posts ::
  "(string \<Rightarrow> string) \<Rightarrow> twitter_reader \<Rightarrow> grok_analysis \<Rightarrow> string list \<Rightarrow> string list \<Rightarrow> int \<Rightarrow> int \<Rightarrow> bool \<Rightarrow>
   campaign_context option \<Rightarrow> post list" where
  "find_matching_posts str_lower tw analyze_tweets_with_grok usernames kws lookback max_posts_per_user
       use_grok_filter ctx =
     (let matching_posts = keyword_matched_posts str_lower tw kws lookback max_posts_per_user usernames []
      in if use_grok_filter \<and> matching_posts \<noteq> [] then
           (case ctx of
              None \<Rightarrow> matching_posts
            | Some c \<Rightarrow> filter_with_grok analyze_tweets_with_grok matching_posts c)
         else matching_posts)"

section \<open>The state store\<close>

text \<open>
  A campaign document. \<^verbatim>\<open>_id\<close> is the \<^verbatim>\<open>ObjectId\<close>, written as its 24 hexadecimal
  characters. \<^verbatim>\<open>max_replies_per_day\<close> is the key the rate limiter reads with
  \<^verbatim>\<open>campaign.get("max_replies_per_day", 50)\<close>; \<open>None\<close> is the key being absent.
\<close>

record campaign =
  campaign_id :: string
  campaign_name :: string
  status :: string
  seed_users :: "string list"
  top_n_users :: int
  lookback_days :: int
  campaign_keywords :: "string list"
  reply_template :: string
  target_url :: string
  short_url :: string
  ai_provider :: string
  reply_model :: "string option"
  use_grok_filter :: bool
  daily_reply_limit :: int
  max_replies_per_day :: "int option"
  dry_run :: bool
  total_replies :: int
  total_clicks :: int
  campaign_created_at :: int
  updated_at :: int

text \<open>A document of \<^verbatim>\<open>matched_posts\<close>: the post with the keys added at lines 246-248.\<close>

record matched_post = post +
  mp_id :: nat
  mp_campaign_id :: string
  reply_status :: string
  found_at :: int

text \<open>A document of \<^verbatim>\<open>campaign_replies\<close>, lines 335-351 (the three zero counters are
  left out).\<close>

record campaign_reply =
  r_campaign_id :: string
  target_user :: string
  target_tweet_id :: string
  target_tweet_text :: string
  reply_text :: "string option"
  reply_tweet_id :: "string option"
  r_short_url :: string
  r_status :: string
  error_message :: "string option"
  r_dry_run :: bool
  posted_at :: "int option"
  r_created_at :: int

text \<open>
  Every database call of the modelled functions is a place where the driver can raise.
  \<open>db_fault\<close> says which call sites raise, and with which message.
\<close>

datatype db_op =
    RL_FindCampaign | RL_CountToday | RL_CountHour | RL_FindLast
  | CM_Insert | CM_Start | CM_Stop
  | PP_FindCampaign | PP_FindPending | PP_FindExisting | PP_MarkDuplicate
  | PP_InsertReply | PP_UpdatePost | PP_IncReplies

record db =
  campaigns :: "campaign list"
  matched_posts :: "matched_post list"
  campaign_replies :: "campaign_reply list"
  db_fault :: "db_op \<Rightarrow> string option"

definition db_call :: "db \<Rightarrow> db_op \<Rightarrow> 'a \<Rightarrow> error + 'a" where
  "db_call d op x = (case db_fault d op of Some m \<Rightarrow> Inl (Exception m) | None \<Rightarrow> Inr x)"

definition bind_err :: "error + 'a \<Rightarrow> ('a \<Rightarrow> error + 'b) \<Rightarrow> error + 'b" where
  "bind_err m f = (case m of Inl e \<Rightarrow> Inl e | Inr x \<Rightarrow> f x)"

text \<open>
  \<^verbatim>\<open>ObjectId(campaign_id)\<close> of the bson library, for a string argument: when the string
  has 24 characters, \<^verbatim>\<open>bytes.fromhex\<close> reads it, and every other string raises
  \<^verbatim>\<open>InvalidId\<close>. \<^verbatim>\<open>bytes.fromhex\<close> takes two hexadecimal digits for each byte and skips
  ASCII whitespace in front of a pair; anything else is an error. The id is written as
  the hexadecimal digits of its bytes in lower case, so two spellings that differ in
  case are the same id, and a string with blanks gives an id of fewer than 12 bytes,
  which is the id of no document. A string with a character outside ASCII is refused
  whatever its length.
\<close>

definition is_hex :: "char \<Rightarrow> bool" where
  "is_hex c =
     (let n = (of_char c :: nat)
      in (48 \<le> n \<and> n \<le> 57) \<or> (65 \<le> n \<and> n \<le> 70) \<or> (97 \<le> n \<and> n \<le> 102))"

definition is_fromhex_space :: "char \<Rightarrow> bool" where
  "is_fromhex_space c = (let n = (of_char c :: nat) in n = 32 \<or> (9 \<le> n \<and> n \<le> 13))"

fun fromhex :: "string \<Rightarrow> string option" where
  "fromhex [] = Some []"
| "fromhex [c] = (if is_fromhex_space c then Some [] else None)"
| "fromhex (c # d # ds) =
     (if is_fromhex_space c then fromhex (d # ds)
      else if is_hex c \<and> is_hex d then
        map_option (\<lambda>r. ascii_lower_char c # ascii_lower_char d # r) (fromhex ds)
      else None)"

text \<open>
  \<^verbatim>\<open>repr\<close> of a string, which the message of \<^verbatim>\<open>InvalidId\<close> prints with \<^verbatim>\<open>%r\<close>: single
  quotes, or double quotes when the string has a single quote and no double quote; the
  backslash, the quote in use and the control characters are escaped.
\<close>

definition hex_digit :: "nat \<Rightarrow> char" where
  "hex_digit n = ''0123456789abcdef'' ! (n mod 16)"

definition repr_char :: "char \<Rightarrow> char \<Rightarrow> string" where
  "repr_char q c =
     (let n = (of_char c :: nat) in
      if c = CHR 0x5C \<or> c = q then [CHR 0x5C, c]
      else if n = 9 then [CHR 0x5C, CHR ''t'']
      else if n = 10 then [CHR 0x5C, CHR ''n'']
      else if n = 13 then [CHR 0x5C, CHR ''r'']
      else if n < 32 \<or> n = 127 then [CHR 0x5C, CHR ''x'', hex_digit (n div 16), hex_digit n]
      else [c])"

definition py_repr :: "string \<Rightarrow> string" where
  "py_repr s =
     (let q = (if CHR 0x27 \<in> set s \<and> CHR 0x22 \<notin> set s then CHR 0x22 else CHR 0x27)
      in q # concat (map (repr_char q) s) @ [q])"

definition invalid_id :: "string \<Rightarrow> error" where
  "invalid_id s =
     Exception (py_repr s
       @ '' is not a valid ObjectId, it must be a 12-byte input or a 24-character hex string'')"

definition ObjectId :: "string \<Rightarrow> error + string" where
  "ObjectId s =
     (if length s = 24 then
        (case fromhex s of None \<Rightarrow> Inl (invalid_id s) | Some h \<Rightarrow> Inr h)
      else Inl (invalid_id s))"

text \<open>\<^verbatim>\<open>update_one\<close>: the first document that the filter selects is changed, if any.\<close>

fun update_one :: "('a \<Rightarrow> bool) \<Rightarrow> ('a \<Rightarrow> 'a) \<Rightarrow> 'a list \<Rightarrow> 'a list" where
  "update_one P f [] = []"
| "update_one P f (x # xs) = (if P x then f x # xs else x # update_one P f xs)"

section \<open>Rate Limiter (rate\_limiter.py)\<close>

definition replies_per_hour :: int where
  "replies_per_hour = 30"

definition min_delay_between_replies_seconds :: int where
  "min_delay_between_replies_seconds = 120"

text \<open>Time is counted in microseconds; \<^verbatim>\<open>now.replace(hour=0, minute=0, second=0,
  microsecond=0)\<close> is the start of the day of \<open>now\<close>.\<close>

definition day_us :: int where
  "day_us = 86400000000"

definition hour_us :: int where
  "hour_us = 3600000000"

definition today_start_of :: "int \<Rightarrow> int" where
  "today_start_of now = now - now mod day_us"

text \<open>The two \<^verbatim>\<open>count_documents\<close> queries, lines 60-65 and 75-80.\<close>

definition posted_since :: "string \<Rightarrow> int \<Rightarrow> campaign_reply \<Rightarrow> bool" where
  "posted_since oid since r =
     (r_campaign_id r = oid \<and> (case posted_at r of None \<Rightarrow> False | Some t \<Rightarrow> since \<le> t)
      \<and> r_status r = ''posted'' \<and> \<not> r_dry_run r)"

definition count_posted_since :: "campaign_reply list \<Rightarrow> string \<Rightarrow> int \<Rightarrow> int" where
  "count_posted_since rs oid since = int (length (filter (posted_since oid since) rs))"

text \<open>The \<^verbatim>\<open>find_one\<close> of lines 88-96, sorted by \<^verbatim>\<open>posted_at\<close> descending; a missing
  date sorts below every date.\<close>

definition later_than :: "campaign_reply \<Rightarrow> campaign_reply \<Rightarrow> bool" where
  "later_than r' r =
     (case posted_at r' of
        None \<Rightarrow> False
      | Some a \<Rightarrow> (case posted_at r of None \<Rightarrow> True | Some b \<Rightarrow> b < a))"

fun latest :: "campaign_reply list \<Rightarrow> campaign_reply option" where
  "latest [] = None"
| "latest (r # rs) =
     (case latest rs of
        None \<Rightarrow> Some r
      | Some r' \<Rightarrow> if later_than r' r then Some r' else Some r)"

definition find_last_reply :: "campaign_reply list \<Rightarrow> string \<Rightarrow> campaign_reply option" where
  "find_last_reply rs oid =
     latest (filter (\<lambda>r. r_campaign_id r = oid \<and> r_status r = ''posted'' \<and> \<not> r_dry_run r) rs)"

text \<open>
  The body of the \<^verbatim>\<open>try\<close> block of \<^verbatim>\<open>can_post_reply\<close>, one definition for each of its
  three numbered checks, the later check being the continuation of the earlier one.
  \<open>clock k\<close> is the reading of the \<open>k\<close>-th \<^verbatim>\<open>datetime.now()\<close> of the call. The float of
  \<^verbatim>\<open>total_seconds()\<close> is the exact quotient here.
\<close>

text \<open>3. Minimum delay check, lines 87-107.\<close>

definition min_delay_check :: "db \<Rightarrow> (nat \<Rightarrow> int) \<Rightarrow> string \<Rightarrow> error + (bool \<times> string)" where
  "min_delay_check d clock oid =
     bind_err (db_call d RL_FindLast (find_last_reply (campaign_replies d) oid)) (\<lambda>last_reply.
       case last_reply of
         None \<Rightarrow> Inr (True, ''OK'')
       | Some r \<Rightarrow>
           (case posted_at r of
              None \<Rightarrow> Inr (True, ''OK'')
            | Some p \<Rightarrow>
                (let since_us = clock 2 - p;
                     min_us = min_delay_between_replies_seconds * 1000000
                 in if since_us < min_us then
                      Inr (False, ''Too soon since last reply. Wait ''
                             @ str_of_int ((min_us - since_us) div 1000000) @ ''s'')
                    else Inr (True, ''OK''))))"

text \<open>2. Hourly limit check, lines 72-85.\<close>

definition hourly_limit_check :: "db \<Rightarrow> (nat \<Rightarrow> int) \<Rightarrow> string \<Rightarrow> error + (bool \<times> string)" where
  "hourly_limit_check d clock oid =
     bind_err (db_call d RL_CountHour
         (count_posted_since (campaign_replies d) oid (clock 1 - hour_us))) (\<lambda>replies_last_hour.
       if replies_last_hour \<ge> replies_per_hour then
         Inr (False, ''Hourly limit reached ('' @ str_of_int replies_last_hour @ ''/''
                       @ str_of_int replies_per_hour @ '')'')
       else min_delay_check d clock oid)"

text \<open>1. Daily limit check, lines 57-70.\<close>

definition daily_limit_check ::
  "db \<Rightarrow> (nat \<Rightarrow> int) \<Rightarrow> string \<Rightarrow> campaign \<Rightarrow> error + (bool \<times> string)" where
  "daily_limit_check d clock oid c =
     bind_err (db_call d RL_CountToday
         (count_posted_since (campaign_replies d) oid (today_start_of (clock 0)))) (\<lambda>replies_today.
       let max_per_day = (case max_replies_per_day c of None \<Rightarrow> 50 | Some m \<Rightarrow> m) in
       if replies_today \<ge> max_per_day then
         Inr (False, ''Daily limit reached ('' @ str_of_int replies_today @ ''/''
                       @ str_of_int max_per_day @ '')'')
       else hourly_limit_check d clock oid)"

definition can_post_reply_try :: "db \<Rightarrow> (nat \<Rightarrow> int) \<Rightarrow> string \<Rightarrow> error + (bool \<times> string)" where
  "can_post_reply_try d clock cid =
     bind_err (ObjectId cid) (\<lambda>oid.
     bind_err (db_call d RL_FindCampaign (find (\<lambda>c. campaign_id c = oid) (campaigns d))) (\<lambda>found.
       case found of
         None \<Rightarrow> Inr (False, ''Campaign not found'')
       | Some c \<Rightarrow> daily_limit_check d clock oid c))"

text \<open>\<^verbatim>\<open>can_post_reply\<close>: the body, and \<^verbatim>\<open>except Exception as e\<close> around it.\<close>

definition can_post_reply :: "db \<Rightarrow> (nat \<Rightarrow> int) \<Rightarrow> string \<Rightarrow> bool \<times> string" where
  "can_post_reply d clock cid =
     (case can_post_reply_try d clock cid of
        Inl e \<Rightarrow> (False, ''Error: '' @ str_of_error e)
      | Inr r \<Rightarrow> r)"

section \<open>Campaign Manager: lifecycle (campaign\_manager.py)\<close>

text \<open>
  The argument of \<^verbatim>\<open>create_campaign\<close>: the keys read with \<^verbatim>\<open>campaign_data[...]\<close> are
  always there, the keys read with \<^verbatim>\<open>.get(key, default)\<close> may be absent (\<open>None\<close>).
\<close>

record campaign_data =
  cd_name :: string
  cd_seed_users :: "string list"
  cd_top_n_users :: "int option"
  cd_lookback_days :: "int option"
  cd_keywords :: "string list"
  cd_reply_template :: string
  cd_target_url :: string
  cd_short_url :: string
  cd_ai_provider :: "string option"
  cd_reply_model :: "string option option"
  cd_use_grok_filter :: "bool option"
  cd_daily_reply_limit :: "int option"
  cd_dry_run :: "bool option"

definition get_or :: "'a option \<Rightarrow> 'a \<Rightarrow> 'a" where
  "get_or v dflt = (case v of None \<Rightarrow> dflt | Some x \<Rightarrow> x)"

text \<open>The document of lines 57-86; \<open>new_id\<close> is the id the store gives it.\<close>

definition new_campaign :: "campaign_data \<Rightarrow> (nat \<Rightarrow> int) \<Rightarrow> string \<Rightarrow> campaign" where
  "new_campaign cd clock new_id =
     \<lparr>campaign_id = new_id,
      campaign_name = cd_name cd,
      status = ''draft'',
      seed_users = cd_seed_users cd,
      top_n_users = get_or (cd_top_n_users cd) 50,
      lookback_days = get_or (cd_lookback_days cd) 7,
      campaign_keywords = cd_keywords cd,
      reply_template = cd_reply_template cd,
      target_url = cd_target_url cd,
      short_url = cd_short_url cd,
      ai_provider = get_or (cd_ai_provider cd) ''openai'',
      reply_model = get_or (cd_reply_model cd) (Some ''gpt-4''),
      use_grok_filter = get_or (cd_use_grok_filter cd) False,
      daily_reply_limit = get_or (cd_daily_reply_limit cd) 50,
      max_replies_per_day = None,
      dry_run = get_or (cd_dry_run cd) False,
      total_replies = 0,
      total_clicks = 0,
      campaign_created_at = clock 0,
      updated_at = clock 1\<rparr>"

definition create_campaign ::
  "campaign_data \<Rightarrow> (nat \<Rightarrow> int) \<Rightarrow> string \<Rightarrow> db \<Rightarrow> (error + campaign) \<times> db" where
  "create_campaign cd clock new_id d =
     (case db_call d CM_Insert (new_campaign cd clock new_id) of
        Inl e \<Rightarrow> (Inl e, d)
      | Inr c \<Rightarrow> (Inr c, d\<lparr>campaigns := campaigns d @ [c]\<rparr>))"

text \<open>
  What \<^verbatim>\<open>start_campaign\<close> and \<^verbatim>\<open>stop_campaign\<close> return:
  \<^verbatim>\<open>{"success": True, "campaign_id": id}\<close> or \<^verbatim>\<open>{"success": False, "error": msg}\<close>.
\<close>

datatype op_result = Succeeded string | Failed string

definition set_status :: "string \<Rightarrow> int \<Rightarrow> string \<Rightarrow> db \<Rightarrow> db" where
  "set_status oid now new_status d =
     d\<lparr>campaigns :=
         update_one (\<lambda>c. campaign_id c = oid) (\<lambda>c. c\<lparr>status := new_status, updated_at := now\<rparr>)
           (campaigns d)\<rparr>"

text \<open>
  \<^verbatim>\<open>start_campaign\<close>, lines 114-143. The analysis that it starts in the background
  writes no status and is not part of the call.
\<close>

definition start_campaign :: "bool \<Rightarrow> (nat \<Rightarrow> int) \<Rightarrow> string \<Rightarrow> db \<Rightarrow> op_result \<times> db" where
  "start_campaign is_authenticated clock cid d =
     (if \<not> is_authenticated then
        (Failed ''Twitter account not configured. Please add your Twitter cookies in Settings.'', d)
      else
        (case bind_err (ObjectId cid) (\<lambda>oid. db_call d CM_Start oid) of
           Inl e \<Rightarrow> (Failed (str_of_error e), d)
         | Inr oid \<Rightarrow> (Succeeded cid, set_status oid (clock 0) ''active'' d)))"

text \<open>\<^verbatim>\<open>stop_campaign\<close>, lines 155-172.\<close>

definition stop_campaign :: "(nat \<Rightarrow> int) \<Rightarrow> string \<Rightarrow> db \<Rightarrow> op_result \<times> db" where
  "stop_campaign clock cid d =
     (case bind_err (ObjectId cid) (\<lambda>oid. db_call d CM_Stop oid) of
        Inl e \<Rightarrow> (Failed (str_of_error e), d)
      | Inr oid \<Rightarrow> (Succeeded cid, set_status oid (clock 0) ''paused'' d))"

text \<open>A sequence of the two state-transition operations, each with its own clock.\<close>

datatype lifecycle_op = Start bool "nat \<Rightarrow> int" string | Stop "nat \<Rightarrow> int" string

fun apply_lifecycle_op :: "lifecycle_op \<Rightarrow> db \<Rightarrow> db" where
  "apply_lifecycle_op (Start is_authenticated clock cid) d = snd (start_campaign is_authenticated clock cid d)"
| "apply_lifecycle_op (Stop clock cid) d = snd (stop_campaign clock cid d)"

definition run_lifecycle :: "lifecycle_op list \<Rightarrow> db \<Rightarrow> db" where
  "run_lifecycle ops d = fold apply_lifecycle_op ops d"

definition status_of :: "db \<Rightarrow> string \<Rightarrow> string option" where
  "status_of d oid = map_option status (find (\<lambda>c. campaign_id c = oid) (campaigns d))"

section \<open>Auto Replier (auto\_replier.py)\<close>

text \<open>
  The text generators are outside the program. Each is a function of what the source
  passes to it and may raise: the adapter's \<^verbatim>\<open>generate_reply_with_grok\<close> (tweet text,
  author, template, url, model), \<^verbatim>\<open>LLMService.generate_text\<close> (the prompt, given by
  author, tweet text, template and url, and the model) and the yes/no conversation of
  \<^verbatim>\<open>_generate_with_both\<close>. The model name is the stored \<^verbatim>\<open>reply_model\<close>, whose key every
  created campaign has.
\<close>

record ai_services =
  generate_reply_with_grok ::
    "string \<Rightarrow> string \<Rightarrow> string \<Rightarrow> string \<Rightarrow> string option \<Rightarrow> error + string option"
  llm_generate_text :: "string \<times> string \<times> string \<times> string \<Rightarrow> string option \<Rightarrow> error + string"
  grok_approval :: "matched_post \<Rightarrow> campaign \<Rightarrow> error + string"

text \<open>Lines 145-150: \<^verbatim>\<open>strip().strip('"')\<close> and the cut at 280 characters.\<close>

definition clean_reply :: "string \<Rightarrow> string" where
  "clean_reply s =
     (let reply = strip_chars (\<lambda>c. c = CHR 0x22) (strip_ws s)
      in if length reply > 280 then take 277 reply @ ''...'' else reply)"

definition generate_with_llm :: "ai_services \<Rightarrow> matched_post \<Rightarrow> campaign \<Rightarrow> error + string option" where
  "generate_with_llm ai tweet_data c =
     bind_err
       (llm_generate_text ai
          (post_username tweet_data, tweet_text tweet_data, reply_template c, short_url c)
          (reply_model c))
       (\<lambda>reply. Inr (Some (clean_reply reply)))"

definition generate_with_grok :: "ai_services \<Rightarrow> matched_post \<Rightarrow> campaign \<Rightarrow> error + string option" where
  "generate_with_grok ai tweet_data c =
     generate_reply_with_grok ai (tweet_text tweet_data) (post_username tweet_data)
       (reply_template c) (short_url c) (reply_model c)"

definition generate_with_both :: "ai_services \<Rightarrow> matched_post \<Rightarrow> campaign \<Rightarrow> error + string option" where
  "generate_with_both ai tweet_data c =
     bind_err (grok_approval ai tweet_data c) (\<lambda>message.
       if contains ''no'' (ascii_lower (strip_ws message)) then Inr None
       else generate_with_llm ai tweet_data c)"

text \<open>\<^verbatim>\<open>generate_reply\<close>: the provider dispatch inside \<^verbatim>\<open>try ... except Exception: return None\<close>.\<close>

definition generate_reply :: "ai_services \<Rightarrow> matched_post \<Rightarrow> campaign \<Rightarrow> string option" where
  "generate_reply ai tweet_data c =
     (case (if ai_provider c = ''grok'' then generate_with_grok ai tweet_data c
            else if ai_provider c = ''openai'' then generate_with_llm ai tweet_data c
            else if ai_provider c = ''anthropic'' then generate_with_llm ai tweet_data c
            else if ai_provider c = ''both'' then generate_with_both ai tweet_data c
            else Inr None) of
        Inl e \<Rightarrow> None
      | Inr r \<Rightarrow> r)"

text \<open>
  The platform's answer to \<^verbatim>\<open>create_tweet\<close>:
  \<^verbatim>\<open>{"success": True, "tweet_id": id, "url": url}\<close> or \<^verbatim>\<open>{"success": False, "error": msg}\<close>,
  or an exception. The calls made are recorded in the order made, as (text, reply\_to).
\<close>

datatype tweet_result = TweetCreated string string | TweetFailed string

type_synonym platform = "string \<Rightarrow> string \<Rightarrow> error + tweet_result"

text \<open>The dictionaries that \<^verbatim>\<open>post_reply\<close> and \<^verbatim>\<open>process_pending_reply\<close> return. \<open>None\<close> is what
  \<^verbatim>\<open>result.get(key)\<close> gives: the key is absent or holds \<^verbatim>\<open>None\<close>.\<close>

record outcome =
  success :: bool
  reason :: "string option"
  o_error :: "string option"
  o_dry_run :: "bool option"
  o_reply_text :: "string option"
  o_tweet_id :: "string option"
  o_url :: "string option"

definition failure :: outcome where
  "failure = \<lparr>success = False, reason = None, o_error = None, o_dry_run = None,
              o_reply_text = None, o_tweet_id = None, o_url = None\<rparr>"

definition post_reply ::
  "ai_services \<Rightarrow> platform \<Rightarrow> matched_post \<Rightarrow> campaign \<Rightarrow> bool \<Rightarrow> (string \<times> string) list \<Rightarrow>
   outcome \<times> (string \<times> string) list" where
  "post_reply ai create_tweet tweet_data c is_dry_run calls =
     (case generate_reply ai tweet_data c of
        None \<Rightarrow> (failure\<lparr>reason := Some ''AI decided to skip or generation failed''\<rparr>, calls)
      | Some reply \<Rightarrow>
          if is_dry_run then
            (failure\<lparr>success := True, o_dry_run := Some True, o_reply_text := Some reply,
                      o_tweet_id := None\<rparr>, calls)
          else
            (case create_tweet reply (tweet_id tweet_data) of
               Inr (TweetCreated new_id new_url) \<Rightarrow>
                 (failure\<lparr>success := True, o_dry_run := Some False, o_reply_text := Some reply,
                           o_tweet_id := Some new_id, o_url := Some new_url\<rparr>,
                  calls @ [(reply, tweet_id tweet_data)])
             | Inr (TweetFailed err) \<Rightarrow>
                 (failure\<lparr>o_error := Some err, o_reply_text := Some reply\<rparr>,
                  calls @ [(reply, tweet_id tweet_data)])
             | Inl e \<Rightarrow>
                 (failure\<lparr>o_error := Some (str_of_error e), o_reply_text := Some reply\<rparr>,
                  calls @ [(reply, tweet_id tweet_data)])))"

section \<open>Campaign Manager: the reply step (campaign\_manager.py)\<close>

text \<open>The state that one reply step can change: the store and the calls made to the
  platform.\<close>

record world =
  store :: db
  tweet_calls :: "(string \<times> string) list"

definition error_outcome :: "error \<Rightarrow> outcome" where
  "error_outcome e = failure\<lparr>o_error := Some (str_of_error e)\<rparr>"

definition is_pending :: "string \<Rightarrow> matched_post \<Rightarrow> bool" where
  "is_pending oid p = (mp_campaign_id p = oid \<and> reply_status p = ''pending'')"

definition is_posted_reply_to :: "string \<Rightarrow> string \<Rightarrow> campaign_reply \<Rightarrow> bool" where
  "is_posted_reply_to oid tid r =
     (r_campaign_id r = oid \<and> target_tweet_id r = tid \<and> r_status r = ''posted'')"

definition set_reply_status :: "nat \<Rightarrow> string \<Rightarrow> db \<Rightarrow> db" where
  "set_reply_status pid new_status d =
     d\<lparr>matched_posts :=
         update_one (\<lambda>p. mp_id p = pid) (\<lambda>p. p\<lparr>reply_status := new_status\<rparr>) (matched_posts d)\<rparr>"

text \<open>The document of lines 335-351. \<^verbatim>\<open>datetime.now()\<close> is read for \<^verbatim>\<open>posted_at\<close> only on
  success, and then again for \<^verbatim>\<open>created_at\<close>.\<close>

definition reply_doc :: "string \<Rightarrow> matched_post \<Rightarrow> campaign \<Rightarrow> outcome \<Rightarrow> (nat \<Rightarrow> int) \<Rightarrow> campaign_reply" where
  "reply_doc oid pending_post c result clock =
     \<lparr>r_campaign_id = oid,
      target_user = post_username pending_post,
      target_tweet_id = tweet_id pending_post,
      target_tweet_text = tweet_text pending_post,
      reply_text = o_reply_text result,
      reply_tweet_id = o_tweet_id result,
      r_short_url = short_url c,
      r_status = (if success result then ''posted'' else ''failed''),
      error_message = o_error result,
      r_dry_run = get_or (o_dry_run result) False,
      posted_at = (if success result then Some (clock 0) else None),
      r_created_at = (if success result then clock 1 else clock 0)\<rparr>"

text \<open>
  Lines 334-368, after \<^verbatim>\<open>post_reply\<close> has returned: the ledger insert, the status of the
  matched post, the counter. A call that raises leaves what was written before it.
\<close>

definition record_result ::
  "string \<Rightarrow> matched_post \<Rightarrow> campaign \<Rightarrow> outcome \<Rightarrow> (nat \<Rightarrow> int) \<Rightarrow> db \<Rightarrow> outcome \<times> db" where
  "record_result oid pending_post c result clock d =
     (case db_call d PP_InsertReply () of
        Inl e \<Rightarrow> (error_outcome e, d)
      | Inr _ \<Rightarrow>
          (let d1 = d\<lparr>campaign_replies :=
                        campaign_replies d @ [reply_doc oid pending_post c result clock]\<rparr>
           in case db_call d PP_UpdatePost () of
                Inl e \<Rightarrow> (error_outcome e, d1)
              | Inr _ \<Rightarrow>
                  (let d2 = set_reply_status (mp_id pending_post)
                              (if success result then ''posted'' else ''failed'') d1
                   in if success result \<and> \<not> get_or (o_dry_run result) False then
                        (case db_call d PP_IncReplies () of
                           Inl e \<Rightarrow> (error_outcome e, d2)
                         | Inr _ \<Rightarrow>
                             (result,
                              d2\<lparr>campaigns :=
                                   update_one (\<lambda>c'. campaign_id c' = oid)
                                     (\<lambda>c'. c'\<lparr>total_replies := total_replies c' + 1\<rparr>)
                                     (campaigns d2)\<rparr>))
                      else (result, d2))))"

text \<open>\<^verbatim>\<open>process_pending_reply\<close>, lines 291-372.\<close>

definition process_pending_reply ::
  "ai_services \<Rightarrow> platform \<Rightarrow> (nat \<Rightarrow> int) \<Rightarrow> string \<Rightarrow> world \<Rightarrow> outcome \<times> world" where
  "process_pending_reply ai create_tweet clock cid w =
     (let d = store w in
      case ObjectId cid of
        Inl e \<Rightarrow> (error_outcome e, w)
      | Inr oid \<Rightarrow>
      (case db_call d PP_FindCampaign (find (\<lambda>c. campaign_id c = oid) (campaigns d)) of
        Inl e \<Rightarrow> (error_outcome e, w)
      | Inr None \<Rightarrow> (failure\<lparr>o_error := Some ''Campaign not found''\<rparr>, w)
      | Inr (Some c) \<Rightarrow>
          if status c \<noteq> ''active'' then (failure\<lparr>o_error := Some ''Campaign not active''\<rparr>, w)
          else
      (case db_call d PP_FindPending (find (is_pending oid) (matched_posts d)) of
        Inl e \<Rightarrow> (error_outcome e, w)
      | Inr None \<Rightarrow> (failure\<lparr>reason := Some ''No pending posts''\<rparr>, w)
      | Inr (Some pending_post) \<Rightarrow>
      (case db_call d PP_FindExisting
              (find (is_posted_reply_to oid (tweet_id pending_post)) (campaign_replies d)) of
        Inl e \<Rightarrow> (error_outcome e, w)
      | Inr (Some existing_reply) \<Rightarrow>
          (case db_call d PP_MarkDuplicate () of
             Inl e \<Rightarrow> (error_outcome e, w)
           | Inr _ \<Rightarrow>
               (failure\<lparr>reason := Some ''Duplicate tweet''\<rparr>,
                w\<lparr>store := set_reply_status (mp_id pending_post) ''duplicate'' d\<rparr>))
      | Inr None \<Rightarrow>
          (case post_reply ai create_tweet pending_post c (dry_run c) (tweet_calls w) of
             (result, calls) \<Rightarrow>
               (case record_result oid pending_post c result clock d of
                  (returned, d') \<Rightarrow> (returned, \<lparr>store = d', tweet_calls = calls\<rparr>)))))))"

section \<open>Notions used to state the properties\<close>

subsection \<open>Encounter order of the Interaction Mapper\<close>

text \<open>
  The usernames in the order in which the scoring loops meet them: for each seed whose
  fetch succeeds, for each of its tweets up to the first failing interaction fetch, the
  likers and then the retweeters.
\<close>

fun tweet_trace :: "twitter_reader \<Rightarrow> tweet list \<Rightarrow> string list" where
  "tweet_trace tw [] = []"
| "tweet_trace tw (t # ts) =
     (case get_tweet_interactions tw (tweet_id t) of
        Inl e \<Rightarrow> []
      | Inr ia \<Rightarrow> likers ia @ retweeters ia @ tweet_trace tw ts)"

fun seed_trace :: "twitter_reader \<Rightarrow> int \<Rightarrow> string list \<Rightarrow> string list" where
  "seed_trace tw lookback [] = []"
| "seed_trace tw lookback (s # ss) =
     (case get_user_tweets tw s 20 lookback of
        Inl e \<Rightarrow> seed_trace tw lookback ss
      | Inr tweets \<Rightarrow> tweet_trace tw tweets @ seed_trace tw lookback ss)"

text \<open>Each name once, at its first occurrence.\<close>

fun seen_order :: "string list \<Rightarrow> string list \<Rightarrow> string list" where
  "seen_order acc [] = acc"
| "seen_order acc (u # us) = seen_order (if u \<in> set acc then acc else acc @ [u]) us"

definition encounter_order :: "twitter_reader \<Rightarrow> int \<Rightarrow> string list \<Rightarrow> string list" where
  "encounter_order tw lookback seeds = seen_order [] (seed_trace tw lookback seeds)"

definition entry_of :: "int \<Rightarrow> string \<times> int \<Rightarrow> score_entry" where
  "entry_of now = (\<lambda>(u, s). \<lparr>username = u, interaction_score = s, last_interaction = now\<rparr>)"

text \<open>The normalisation in the words of the specification: one leading \<open>@\<close> is removed.\<close>

definition spec_strip_leading_at :: "string \<Rightarrow> string" where
  "spec_strip_leading_at s = (case s of [] \<Rightarrow> [] | c # r \<Rightarrow> if c = CHR ''@'' then r else s)"

subsection \<open>Example inputs\<close>

definition example_tweet :: tweet where
  "example_tweet = \<lparr>tweet_id = ''1001'', tweet_text = ''Rust is fun'',
     created_at = ''Mon Nov 02 10:00:00 +0000 2026'', likes = 1, retweets = 1,
     url = ''https://x.com/a/status/1001''\<rparr>"

text \<open>A platform on which the seed \<open>@a\<close> has one post, liked by bob and retweeted by
  carol.\<close>

definition scenario_reader :: twitter_reader where
  "scenario_reader =
     \<lparr>get_user_tweets = (\<lambda>u n lookback. if u = ''@a'' then Inr [example_tweet] else Inr []),
      get_tweet_interactions = (\<lambda>i. Inr \<lparr>likers = [''bob''], retweeters = [''carol'']\<rparr>)\<rparr>"

definition example_tweet2 :: tweet where
  "example_tweet2 = \<lparr>tweet_id = ''1002'', tweet_text = ''Good morning'',
     created_at = ''Mon Nov 02 11:00:00 +0000 2026'', likes = 0, retweets = 0,
     url = ''https://x.com/bob/status/1002''\<rparr>"

definition example_tweet3 :: tweet where
  "example_tweet3 = \<lparr>tweet_id = ''1003'', tweet_text = ''RUST and Go'',
     created_at = ''Mon Nov 02 12:00:00 +0000 2026'', likes = 3, retweets = 0,
     url = ''https://x.com/bob/status/1003''\<rparr>"

text \<open>A platform on which bob has three posts and no other account can be fetched.\<close>

definition filter_reader :: twitter_reader where
  "filter_reader =
     \<lparr>get_user_tweets = (\<lambda>u n lookback.
          if u = ''bob'' then Inr [example_tweet, example_tweet2, example_tweet3]
          else Inl (Exception ''user not found'')),
      get_tweet_interactions = (\<lambda>i. Inr \<lparr>likers = [], retweeters = []\<rparr>)\<rparr>"

definition example_context :: campaign_context where
  "example_context = \<lparr>ctx_name = ''Launch'', ctx_keywords = [''rust'', ''go''],
     ctx_reply_template = ''Hi {author}, see {url}'', ctx_target_url = ''https://example.com''\<rparr>"

text \<open>An AI call that raises, as the adapter does without a session; one that answers
  with text that has no line of the asked form; one that reports failure.\<close>

definition raising_grok :: grok_analysis where
  "raising_grok = (\<lambda>posts ctx. Inl (Exception ''Twitter client not authenticated.''))"

definition chatty_grok :: grok_analysis where
  "chatty_grok = (\<lambda>posts ctx. Inr (GrokSuccess ''Sorry, I cannot help with that.''))"

definition failing_grok :: grok_analysis where
  "failing_grok = (\<lambda>posts ctx. Inr (GrokFailure ''timeout''))"

text \<open>A store without failing calls, and a campaign created with a daily limit of 1.\<close>

definition empty_db :: db where
  "empty_db = \<lparr>campaigns = [], matched_posts = [], campaign_replies = [],
     db_fault = (\<lambda>op. None)\<rparr>"

definition example_id :: string where
  "example_id = ''0123456789abcdef01234567''"

definition example_data :: campaign_data where
  "example_data =
     \<lparr>cd_name = ''Launch'', cd_seed_users = [''@a''], cd_top_n_users = Some 1,
      cd_lookback_days = Some 7, cd_keywords = [''rust''],
      cd_reply_template = ''Hi {author}, see {url}'', cd_target_url = ''https://example.com'',
      cd_short_url = ''https://sho.rt/x'', cd_ai_provider = Some ''openai'',
      cd_reply_model = Some None, cd_use_grok_filter = Some False,
      cd_daily_reply_limit = Some 1, cd_dry_run = Some False\<rparr>"

definition example_campaign :: campaign where
  "example_campaign = new_campaign example_data (\<lambda>k. 0) example_id"

definition created_db :: db where
  "created_db = snd (create_campaign example_data (\<lambda>k. 0) example_id empty_db)"

text \<open>Ten o'clock of the first day, and a reply posted at seven o'clock of that day.\<close>

definition ten_oclock :: "nat \<Rightarrow> int" where
  "ten_oclock = (\<lambda>k. 10 * hour_us)"

definition example_reply :: campaign_reply where
  "example_reply =
     \<lparr>r_campaign_id = example_id, target_user = ''bob'', target_tweet_id = ''1001'',
      target_tweet_text = ''Rust is fun'', reply_text = Some ''Nice post! https://sho.rt/x'',
      reply_tweet_id = Some ''9001'', r_short_url = ''https://sho.rt/x'', r_status = ''posted'',
      error_message = None, r_dry_run = False, posted_at = Some (7 * hour_us),
      r_created_at = 7 * hour_us\<rparr>"

text \<open>The created campaign with one real reply in the ledger, and the same store when
  the first count query fails.\<close>

definition replied_db :: db where
  "replied_db = created_db\<lparr>campaign_replies := [example_reply]\<rparr>"

definition broken_db :: db where
  "broken_db =
     replied_db\<lparr>db_fault := (\<lambda>op. if op = RL_CountToday then Some ''connection lost'' else None)\<rparr>"

text \<open>Generators that always answer, a platform that always posts, and a pending
  matched post for the example tweet.\<close>

definition example_ai :: ai_services where
  "example_ai =
     \<lparr>generate_reply_with_grok = (\<lambda>txt author template link model. Inr (Some ''Nice post!'')),
      llm_generate_text = (\<lambda>prompt model. Inr ''Nice post! https://sho.rt/x''),
      grok_approval = (\<lambda>p c. Inr ''yes'')\<rparr>"

definition example_platform :: platform where
  "example_platform = (\<lambda>txt reply_to. Inr (TweetCreated ''9001'' ''https://x.com/me/status/9001''))"

definition example_pending :: matched_post where
  "example_pending =
     \<lparr>tweet_id = ''1001'', tweet_text = ''Rust is fun'',
      created_at = ''Mon Nov 02 10:00:00 +0000 2026'', likes = 1, retweets = 1,
      url = ''https://x.com/a/status/1001'', post_username = ''bob'',
      matched_keywords = [''rust''], grok_approved = None, grok_reason = None,
      mp_id = 1, mp_campaign_id = example_id, reply_status = ''pending'', found_at = 0\<rparr>"

definition active_campaign :: campaign where
  "active_campaign = example_campaign\<lparr>status := ''active''\<rparr>"

definition dry_campaign :: campaign where
  "dry_campaign = example_campaign\<lparr>status := ''active'', dry_run := True\<rparr>"

text \<open>A world in which the pending post's tweet already has a posted reply, and a world
  with a dry-run campaign and no reply yet.\<close>

definition duplicate_world :: world where
  "duplicate_world =
     \<lparr>store = \<lparr>campaigns = [active_campaign], matched_posts = [example_pending],
                campaign_replies = [example_reply], db_fault = (\<lambda>op. None)\<rparr>,
      tweet_calls = []\<rparr>"

definition dry_run_world :: world where
  "dry_run_world =
     \<lparr>store = \<lparr>campaigns = [dry_campaign], matched_posts = [example_pending],
                campaign_replies = [], db_fault = (\<lambda>op. None)\<rparr>,
      tweet_calls = []\<rparr>"

text \<open>The outcome of a dry run, lines 224-229 of auto\_replier.py.\<close>

definition dry_run_outcome :: "string \<Rightarrow> outcome" where
  "dry_run_outcome reply =
     \<lparr>success = True, reason = None, o_error = None, o_dry_run = Some True,
      o_reply_text = Some reply, o_tweet_id = None, o_url = None\<rparr>"

subsection \<open>The keyword filter, said with list functions\<close>




section \<open>Properties\<close>

subsection \<open>Interaction Mapper\<close>

lemma seen_order_append: "seen_order acc (xs @ ys) = seen_order (seen_order acc xs) ys"
  by (induction xs arbitrary: acc) simp_all

lemma distinct_seen_order: "distinct acc \<Longrightarrow> distinct (seen_order acc xs)"
  by (induction xs arbitrary: acc) simp_all

lemma set_seen_order: "set (seen_order acc xs) = set acc \<union> set xs"
  by (induction xs arbitrary: acc) auto

lemma keys_update: "map fst (AList.update k v al) = (if k \<in> fst ` set al then map fst al else map fst al @ [k])"
  by (induction al) auto

lemma keys_score_add: "map fst (score_add n sc u) = (if u \<in> set (map fst sc) then map fst sc else map fst sc @ [u])"
  by (simp add: score_add_def keys_update)

lemma keys_foldl_score_add: "map fst (foldl (score_add n) sc us) = seen_order (map fst sc) us"
proof (induction us arbitrary: sc)
  case Nil
  then show ?case by simp
next
  case (Cons u us)
  show ?case using Cons.IH[of "score_add n sc u"] by (simp add: keys_score_add)
qed

lemma keys_score_tweets: "map fst (score_tweets tw ts sc) = seen_order (map fst sc) (tweet_trace tw ts)"
  by (induction ts arbitrary: sc) (simp_all add: keys_foldl_score_add seen_order_append split: sum.splits)

lemma keys_score_seeds: "map fst (score_seeds tw lb seeds sc) = seen_order (map fst sc) (seed_trace tw lb seeds)"
  by (induction seeds arbitrary: sc) (simp_all add: keys_score_tweets seen_order_append split: sum.splits)

lemma keys_remove_seeds: "fst ` set (remove_seeds seeds sc) = fst ` set sc - strip_at ` set seeds"
proof (induction seeds arbitrary: sc)
  case Nil
  then show ?case by (simp add: remove_seeds_def)
next
  case (Cons s seeds)
  have "fst ` set (AList.delete (strip_at s) sc) = fst ` set sc - {strip_at s}"
    by (auto simp: AList.delete_eq image_iff)
  with Cons[of "AList.delete (strip_at s) sc"] show ?case
    by (auto simp: remove_seeds_def)
qed

lemma remove_seeds_filter: "remove_seeds seeds sc = filter (\<lambda>x. fst x \<notin> strip_at ` set seeds) sc"
proof (induction seeds arbitrary: sc)
  case Nil
  then show ?case by (simp add: remove_seeds_def)
next
  case (Cons s seeds)
  have "remove_seeds (s # seeds) sc = remove_seeds seeds (AList.delete (strip_at s) sc)"
    by (simp add: remove_seeds_def)
  also have "\<dots> = filter (\<lambda>x. fst x \<notin> strip_at ` set seeds) (filter (\<lambda>x. fst x \<noteq> strip_at s) sc)"
    by (simp add: Cons AList.delete_eq case_prod_unfold eq_commute)
  finally show ?case by (simp add: conj_commute)
qed

lemma set_slice_to: "set (slice_to n xs) \<subseteq> set xs"
  by (auto simp: slice_to_def dest: in_set_takeD)

lemma slice_to_prefix: "prefix (slice_to n xs) xs"
  by (simp add: slice_to_def take_is_prefix)

lemma length_slice_to: "0 \<le> n \<Longrightarrow> int (length (slice_to n xs)) \<le> n"
  by (simp add: slice_to_def)

lemma sorted_desc_stable: "filter (\<lambda>y. snd y = k) (sorted_desc sc) = filter (\<lambda>y. snd y = k) sc"
  using sort_key_stable[of "\<lambda>x. - snd x" "-k" sc] by (simp add: sorted_desc_def)

lemma sorted_desc_sorted: "sorted_wrt (\<lambda>a b. snd b \<le> snd a) (sorted_desc sc)"
proof -
  have "sorted (map (\<lambda>x. - snd x) (sorted_desc sc))" by (simp add: sorted_desc_def)
  then show ?thesis by (simp add: sorted_map sorted_wrt_iff_nth_less)
qed


lemma find_top_alt:
  "find_top_interacted_users tw seeds top_n lb now =
     map (entry_of now) (slice_to top_n (sorted_desc (remove_seeds seeds (score_seeds tw lb seeds []))))"
  by (simp add: find_top_interacted_users_def entry_of_def)

lemma username_entry_of: "username \<circ> entry_of now = fst"
  by (auto simp: entry_of_def fun_eq_iff)

lemma score_entry_of: "interaction_score \<circ> entry_of now = snd"
  by (auto simp: entry_of_def fun_eq_iff)

lemma filter_score_entries:
  "filter (\<lambda>e. interaction_score e = k) (map (entry_of now) xs) = map (entry_of now) (filter (\<lambda>x. snd x = k) xs)"
  by (induction xs) (auto simp: entry_of_def)

lemma names_of_entries: "map username (map (entry_of now) xs) = map fst xs"
  by (simp add: username_entry_of)

lemma tie_order:
  "subseq (map fst (filter (\<lambda>x. snd x = k) (slice_to n (sorted_desc (remove_seeds seeds sc))))) (map fst sc)"
proof -
  let ?srt = "sorted_desc (remove_seeds seeds sc)"
  have "prefix (filter (\<lambda>x. snd x = k) (slice_to n ?srt)) (filter (\<lambda>x. snd x = k) ?srt)"
    by (rule filter_mono_prefix) (rule slice_to_prefix)
  then have "subseq (filter (\<lambda>x. snd x = k) (slice_to n ?srt)) (filter (\<lambda>x. snd x = k) (remove_seeds seeds sc))"
    by (simp add: sorted_desc_stable prefix_imp_subseq)
  also have "subseq (filter (\<lambda>x. snd x = k) (remove_seeds seeds sc)) (remove_seeds seeds sc)"
    by simp
  also have "subseq (remove_seeds seeds sc) sc"
    by (simp add: remove_seeds_filter)
  finally show ?thesis by (rule subseq_map)
qed

lemma mapper_names: "username ` set (map (entry_of now) xs) = fst ` set xs"
  by (induction xs) (simp_all add: entry_of_def case_prod_unfold)

text \<open>
  The shape of the mapper's result, in the code's own terms. For every reader, seed list,
  \<open>top_n\<close> and lookback: no username of the result equals a seed with its leading and
  trailing \<open>@\<close> characters removed (\<^verbatim>\<open>seed.strip('@')\<close>); the result is sorted by
  score, descending; entries of equal score stand in the order in which the scoring loops
  first met their usernames; and for \<open>top_n \<ge> 0\<close> the result has at most \<open>top_n\<close>
  entries.
\<close>

lemma mapper_output_shape:
  "strip_at ` set seeds \<inter> username ` set (find_top_interacted_users tw seeds top_n lookback now) = {}
   \<and> sorted_wrt (\<lambda>a b. interaction_score b \<le> interaction_score a)
         (find_top_interacted_users tw seeds top_n lookback now)
   \<and> (\<forall>k. subseq (map username (filter (\<lambda>e. interaction_score e = k)
                        (find_top_interacted_users tw seeds top_n lookback now)))
              (encounter_order tw lookback seeds))
   \<and> distinct (encounter_order tw lookback seeds)
   \<and> (0 \<le> top_n \<longrightarrow> int (length (find_top_interacted_users tw seeds top_n lookback now)) \<le> top_n)"
proof -
  let ?sc = "score_seeds tw lookback seeds []"
  let ?cut = "slice_to top_n (sorted_desc (remove_seeds seeds ?sc))"
  let ?res = "find_top_interacted_users tw seeds top_n lookback now"
  have r: "?res = map (entry_of now) ?cut" by (simp add: find_top_alt)
  have "username ` set ?res = fst ` set ?cut"
    unfolding r by (rule mapper_names)
  also have "\<dots> \<subseteq> fst ` set (remove_seeds seeds ?sc)"
    using set_slice_to[of top_n "sorted_desc (remove_seeds seeds ?sc)"]
    by (auto simp: sorted_desc_def)
  finally have no_seed: "strip_at ` set seeds \<inter> username ` set ?res = {}"
    by (auto simp: keys_remove_seeds)
  have "sorted_wrt (\<lambda>a b. snd b \<le> snd a) ?cut"
    using sorted_desc_sorted[of "remove_seeds seeds ?sc"]
    by (auto simp: slice_to_def sorted_wrt_take)
  then have srt: "sorted_wrt (\<lambda>a b. interaction_score b \<le> interaction_score a) ?res"
    by (simp add: r sorted_wrt_map entry_of_def case_prod_unfold)
  have ties: "subseq (map username (filter (\<lambda>e. interaction_score e = k) ?res))
           (encounter_order tw lookback seeds)" for k
    using tie_order[of k top_n seeds ?sc]
    by (simp add: r filter_score_entries names_of_entries keys_score_seeds encounter_order_def del: map_map)
  have dist: "distinct (encounter_order tw lookback seeds)"
    by (simp add: distinct_seen_order encounter_order_def)
  have len: "0 \<le> top_n \<longrightarrow> int (length ?res) \<le> top_n"
    by (simp add: r length_slice_to)
  from no_seed srt ties dist len show ?thesis by blast
qed

text \<open>\<^verbatim>\<open>strip('@')\<close> and the removal of one leading \<open>@\<close> agree on every string that
  holds no further \<open>@\<close>.\<close>

lemma dropWhile_none: "\<forall>x \<in> set xs. \<not> P x \<Longrightarrow> dropWhile P xs = xs"
  by (cases xs) auto

lemma strip_chars_none: "\<forall>x \<in> set xs. \<not> P x \<Longrightarrow> strip_chars P xs = xs"
  by (simp add: strip_chars_def dropWhile_none)

lemma strip_at_handle:
  "CHR ''@'' \<notin> set (spec_strip_leading_at s) \<Longrightarrow> strip_at s = spec_strip_leading_at s"
proof (cases s)
  case Nil
  then show ?thesis by (simp add: strip_at_def strip_chars_def spec_strip_leading_at_def)
next
  case (Cons c r)
  assume clean: "CHR ''@'' \<notin> set (spec_strip_leading_at s)"
  show ?thesis
  proof (cases "c = CHR ''@''")
    case True
    with Cons clean have r: "\<forall>x \<in> set r. \<not> x = CHR ''@''"
      by (auto simp: spec_strip_leading_at_def)
    have "strip_at s = strip_chars (\<lambda>c. c = CHR ''@'') r"
      using Cons True by (simp add: strip_at_def strip_chars_def)
    also have "\<dots> = r" using r by (rule strip_chars_none)
    finally show ?thesis using Cons True by (simp add: spec_strip_leading_at_def)
  next
    case False
    with Cons clean have "\<forall>x \<in> set s. \<not> x = CHR ''@''"
      by (auto simp: spec_strip_leading_at_def)
    then have "strip_at s = s" unfolding strip_at_def by (rule strip_chars_none)
    with Cons False show ?thesis by (simp add: spec_strip_leading_at_def)
  qed
qed

text \<open>Every username of the result is a liker or retweeter met by the scoring loops.\<close>

lemma result_names_encountered:
  "username ` set (find_top_interacted_users tw seeds top_n lookback now)
     \<subseteq> set (seed_trace tw lookback seeds)"
proof -
  let ?sc = "score_seeds tw lookback seeds []"
  let ?cut = "slice_to top_n (sorted_desc (remove_seeds seeds ?sc))"
  have "username ` set (find_top_interacted_users tw seeds top_n lookback now) = fst ` set ?cut"
    unfolding find_top_alt by (rule mapper_names)
  also have "\<dots> \<subseteq> fst ` set (remove_seeds seeds ?sc)"
    using set_slice_to[of top_n "sorted_desc (remove_seeds seeds ?sc)"]
    by (auto simp: sorted_desc_def)
  also have "\<dots> \<subseteq> set (map fst ?sc)"
    by (auto simp: keys_remove_seeds)
  also have "\<dots> = set (seed_trace tw lookback seeds)"
    by (simp add: keys_score_seeds set_seen_order del: set_map)
  finally show ?thesis .
qed

text \<open>
  Claim C5. For every reader, seed list and lookback, and every \<open>top_n \<ge> 0\<close> (the API
  admits \<open>top_n_users \<ge> 1\<close> only), where the seeds are handles, that is hold no \<open>@\<close>
  beyond one leading \<open>@\<close>, or the likers and retweeters the platform reports are screen
  names, which hold no \<open>@\<close>: the result contains no username equal to a seed with one
  leading \<open>@\<close> removed; it is sorted by interaction score, descending; entries of equal
  score stand in the order in which the scoring loops first met their usernames (the
  sort is stable); and the result has at most \<open>top_n\<close> entries.
\<close>

theorem C5_mapper_output_shape:
  assumes "0 \<le> top_n"
    and "(\<forall>seed \<in> set seeds. CHR ''@'' \<notin> set (spec_strip_leading_at seed))
         \<or> (\<forall>u \<in> set (seed_trace tw lookback seeds). CHR ''@'' \<notin> set u)"
  shows "spec_strip_leading_at ` set seeds
           \<inter> username ` set (find_top_interacted_users tw seeds top_n lookback now) = {}
   \<and> sorted_wrt (\<lambda>a b. interaction_score b \<le> interaction_score a)
         (find_top_interacted_users tw seeds top_n lookback now)
   \<and> (\<forall>k. subseq (map username (filter (\<lambda>e. interaction_score e = k)
                        (find_top_interacted_users tw seeds top_n lookback now)))
              (encounter_order tw lookback seeds))
   \<and> distinct (encounter_order tw lookback seeds)
   \<and> int (length (find_top_interacted_users tw seeds top_n lookback now)) \<le> top_n"
proof -
  let ?res = "find_top_interacted_users tw seeds top_n lookback now"
  note shape = mapper_output_shape[of seeds tw top_n lookback now]
  have no_seed: "spec_strip_leading_at ` set seeds \<inter> username ` set ?res = {}"
  proof (rule ccontr)
    assume "spec_strip_leading_at ` set seeds \<inter> username ` set ?res \<noteq> {}"
    then obtain seed where seed: "seed \<in> set seeds"
      and inres: "spec_strip_leading_at seed \<in> username ` set ?res"
      by auto
    from inres result_names_encountered[of tw seeds top_n lookback now]
    have met: "spec_strip_leading_at seed \<in> set (seed_trace tw lookback seeds)" by blast
    from assms(2) seed met have "CHR ''@'' \<notin> set (spec_strip_leading_at seed)" by blast
    then have eq: "strip_at seed = spec_strip_leading_at seed" by (rule strip_at_handle)
    from seed have a: "strip_at seed \<in> strip_at ` set seeds" by (rule imageI)
    from inres eq have b: "strip_at seed \<in> username ` set ?res" by simp
    from shape have "strip_at ` set seeds \<inter> username ` set ?res = {}" by (rule conjunct1)
    with a b show False by blast
  qed
  from shape assms(1) no_seed show ?thesis by blast
qed

lemmas mapper_eval = find_top_interacted_users_def slice_to_def sorted_desc_def remove_seeds_def
  score_add_def score_get_def strip_at_def strip_chars_def AList.delete_eq
  scenario_reader_def example_tweet_def

text \<open>Claim C5, witness: the scenario platform with seed \<open>@a\<close> and \<open>top_n = 1\<close>; the
  seed is a handle, and the result, the one entry carol, does not hold the name \<open>a\<close>.\<close>

theorem C5_mapper_output_shape_witness:
  "(0::int) \<le> 1
   \<and> CHR ''@'' \<notin> set (spec_strip_leading_at ''@a'')
   \<and> spec_strip_leading_at ''@a'' = ''a''
   \<and> spec_strip_leading_at ` set [''@a'']
        \<inter> username ` set (find_top_interacted_users scenario_reader [''@a''] 1 7 0) = {}
   \<and> find_top_interacted_users scenario_reader [''@a''] 1 7 0 \<noteq> []
   \<and> int (length (find_top_interacted_users scenario_reader [''@a''] 1 7 0)) \<le> 1"
  using C5_mapper_output_shape [where top_n = 1 and seeds = "[''@a'']" and tw = scenario_reader
      and lookback = 7 and now = 0]
  by (simp add: mapper_eval spec_strip_leading_at_def)

text \<open>
  Claim C7. Seed list \<open>[@a]\<close>, \<open>top_n = 1\<close>, one seed post whose interactions are the
  liker bob and the retweeter carol: the result is the single entry carol with score 2.
\<close>

theorem C7_scoring_scenario:
  assumes "get_user_tweets tw ''@a'' 20 lookback = Inr [t]"
    and "get_tweet_interactions tw (tweet_id t) = Inr \<lparr>likers = [''bob''], retweeters = [''carol'']\<rparr>"
  shows "find_top_interacted_users tw [''@a''] 1 lookback now =
           [\<lparr>username = ''carol'', interaction_score = 2, last_interaction = now\<rparr>]"
  using assms by (simp add: find_top_interacted_users_def slice_to_def sorted_desc_def remove_seeds_def
  score_add_def score_get_def strip_at_def strip_chars_def AList.delete_eq)

text \<open>Claim C7, witness: the scenario platform.\<close>

theorem C7_scoring_scenario_witness:
  "get_user_tweets scenario_reader ''@a'' 20 7 = Inr [example_tweet]
   \<and> get_tweet_interactions scenario_reader (tweet_id example_tweet) = Inr \<lparr>likers = [''bob''], retweeters = [''carol'']\<rparr>
   \<and> find_top_interacted_users scenario_reader [''@a''] 1 7 0 =
           [\<lparr>username = ''carol'', interaction_score = 2, last_interaction = 0\<rparr>]"
  using C7_scoring_scenario [of scenario_reader 7 example_tweet 0]
  by (simp add: scenario_reader_def)

subsection \<open>Post Filter\<close>










subsection \<open>The AI gate of the Post Filter\<close>

lemma strip_prefix_Some: "strip_prefix p s = Some r \<Longrightarrow> s = p @ r"
  by (induction p s rule: strip_prefix.induct) (auto split: if_splits)

lemma match_at_needs_literal: "match_at s = Some r \<Longrightarrow> prefix ''tweet_id='' s"
  unfolding match_at_def
  by (cases "strip_prefix ''tweet_id='' s") (auto dest!: strip_prefix_Some)

lemma findall_from_no_literal:
  "\<not> sublist ''tweet_id='' s \<Longrightarrow> findall_from k s = []"
proof (induction s arbitrary: k)
  case Nil
  then show ?case by simp
next
  case (Cons c cs)
  from Cons.prems have tail: "\<not> sublist ''tweet_id='' cs"
    by (auto simp: sublist_Cons_right)
  from Cons.prems have "\<not> prefix ''tweet_id='' (c # cs)"
    by (auto simp: sublist_Cons_right)
  then have none: "match_at (c # cs) = None"
    using match_at_needs_literal[of "c # cs"] by (cases "match_at (c # cs)") auto
  show ?case
    by (cases k) (simp_all add: none Cons.IH[OF tail])
qed

lemma filter_with_grok_raise:
  "analyze posts c = Inl e \<Longrightarrow> filter_with_grok analyze posts c = posts"
  by (simp add: filter_with_grok_def)

lemma parse_no_match: "findall txt = [] \<Longrightarrow> parse_grok_analysis txt posts = []"
  by (simp add: parse_grok_analysis_def)

lemma pre_bob:
  "keyword_matched_posts ascii_lower filter_reader [''rust''] 7 5 [''bob''] [] =
     [make_post ''bob'' example_tweet [''rust''], make_post ''bob'' example_tweet3 [''rust'']]"
  by code_simp

lemma chatty_no_match: "findall ''Sorry, I cannot help with that.'' = []"
  by code_simp

text \<open>
  Claim C9. If the AI-analysis call raises on the keyword-matched candidates, then
  \<^verbatim>\<open>find_matching_posts\<close> returns exactly these candidates: the same posts with the same
  contents, in the same order, whether or not the gate was asked for.
\<close>

theorem C9_fail_open_on_exception:
  assumes "analyze (keyword_matched_posts str_lower tw kws lookback m usernames []) c = Inl e"
  shows "find_matching_posts str_lower tw analyze usernames kws lookback m gate (Some c) =
           keyword_matched_posts str_lower tw kws lookback m usernames []"
  using assms by (simp add: find_matching_posts_def filter_with_grok_raise Let_def)

text \<open>Claim C9, witness: two candidates of bob and an adapter without a session.\<close>

theorem C9_fail_open_on_exception_witness:
  "raising_grok (keyword_matched_posts ascii_lower filter_reader [''rust''] 7 5 [''bob''] []) example_context
     = Inl (Exception ''Twitter client not authenticated.'')
   \<and> find_matching_posts ascii_lower filter_reader raising_grok [''bob''] [''rust''] 7 5 True (Some example_context) =
       [make_post ''bob'' example_tweet [''rust''], make_post ''bob'' example_tweet3 [''rust'']]"
  using C9_fail_open_on_exception [of raising_grok ascii_lower filter_reader "[''rust'']" 7 5 "[''bob'']" example_context
      "Exception ''Twitter client not authenticated.''" True]
  by (simp add: raising_grok_def pre_bob del: keyword_matched_posts.simps)

text \<open>
  Claim C2, as the code has it. With a non-empty candidate list and the gate on: if the
  AI call succeeds and its text has no match of the pattern (as every text without the
  piece \<^verbatim>\<open>tweet_id=\<close>), \<^verbatim>\<open>find_matching_posts\<close> returns the empty list; the candidates
  come back unchanged when the call reports \<^verbatim>\<open>success = False\<close>.
\<close>

theorem C2_unparseable_output:
  assumes "keyword_matched_posts str_lower tw kws lookback m usernames [] = pre" and "pre \<noteq> []"
  shows "(analyze pre c = Inr (GrokSuccess txt) \<and> findall txt = [] \<longrightarrow>
            find_matching_posts str_lower tw analyze usernames kws lookback m True (Some c) = [])
       \<and> (\<not> sublist ''tweet_id='' txt \<longrightarrow> findall txt = [])
       \<and> (analyze pre c = Inr (GrokFailure err) \<longrightarrow>
            find_matching_posts str_lower tw analyze usernames kws lookback m True (Some c) = pre)"
  using assms
  by (simp add: find_matching_posts_def filter_with_grok_def parse_no_match findall_def findall_from_no_literal Let_def)

text \<open>Claim C2, witness: two candidates of bob, an AI that answers with prose and one
  that reports failure.\<close>

theorem C2_unparseable_output_witness:
  "keyword_matched_posts ascii_lower filter_reader [''rust''] 7 5 [''bob''] [] \<noteq> []
   \<and> findall ''Sorry, I cannot help with that.'' = []
   \<and> find_matching_posts ascii_lower filter_reader chatty_grok [''bob''] [''rust''] 7 5 True (Some example_context) = []
   \<and> find_matching_posts ascii_lower filter_reader failing_grok [''bob''] [''rust''] 7 5 True (Some example_context) =
       [make_post ''bob'' example_tweet [''rust''], make_post ''bob'' example_tweet3 [''rust'']]"
  using C2_unparseable_output [of ascii_lower filter_reader "[''rust'']" 7 5 "[''bob'']"
      "[make_post ''bob'' example_tweet [''rust''], make_post ''bob'' example_tweet3 [''rust'']]"
      chatty_grok example_context "''Sorry, I cannot help with that.''" "''timeout''"]
    C2_unparseable_output [of ascii_lower filter_reader "[''rust'']" 7 5 "[''bob'']"
      "[make_post ''bob'' example_tweet [''rust''], make_post ''bob'' example_tweet3 [''rust'']]"
      failing_grok example_context "''Sorry, I cannot help with that.''" "''timeout''"]
  by (simp add: pre_bob chatty_no_match chatty_grok_def failing_grok_def del: keyword_matched_posts.simps)

text \<open>
  Claim C2 as stated fails: the AI call succeeds with a text that has no match, the
  candidate list is not empty, and the result is not the candidate list.
\<close>

theorem C2_unparseable_output_counterexample:
  "chatty_grok (keyword_matched_posts ascii_lower filter_reader [''rust''] 7 5 [''bob''] []) example_context
     = Inr (GrokSuccess ''Sorry, I cannot help with that.'')
   \<and> findall ''Sorry, I cannot help with that.'' = []
   \<and> keyword_matched_posts ascii_lower filter_reader [''rust''] 7 5 [''bob''] [] \<noteq> []
   \<and> find_matching_posts ascii_lower filter_reader chatty_grok [''bob''] [''rust''] 7 5 True (Some example_context)
       \<noteq> keyword_matched_posts ascii_lower filter_reader [''rust''] 7 5 [''bob''] []"
  by (simp add: pre_bob chatty_no_match chatty_grok_def find_matching_posts_def filter_with_grok_def
      parse_no_match Let_def del: keyword_matched_posts.simps)

subsection \<open>Campaign lifecycle\<close>

lemma find_update_one:
  "find P (update_one P f xs) = map_option f (find P xs)" if "\<And>x. P x \<Longrightarrow> P (f x)"
  using that by (induction xs) auto

lemma find_update_one_other:
  "find Q (update_one P f xs) = find Q xs" if "\<And>x. P x \<Longrightarrow> \<not> Q x" "\<And>x. P x \<Longrightarrow> \<not> Q (f x)"
  using that by (induction xs) auto

lemma status_of_set_status:
  "status_of (set_status oid now st d) oid' =
     (if oid' = oid then map_option (\<lambda>_. st) (status_of d oid) else status_of d oid')"
proof (cases "oid' = oid")
  case True
  have "find (\<lambda>c. campaign_id c = oid)
          (update_one (\<lambda>c. campaign_id c = oid) (\<lambda>c. c\<lparr>status := st, updated_at := now\<rparr>) (campaigns d))
        = map_option (\<lambda>c. c\<lparr>status := st, updated_at := now\<rparr>) (find (\<lambda>c. campaign_id c = oid) (campaigns d))"
    by (rule find_update_one) simp
  with True show ?thesis
    by (simp add: status_of_def set_status_def option.map_comp comp_def)
next
  case False
  have "find (\<lambda>c. campaign_id c = oid')
          (update_one (\<lambda>c. campaign_id c = oid) (\<lambda>c. c\<lparr>status := st, updated_at := now\<rparr>) (campaigns d))
        = find (\<lambda>c. campaign_id c = oid') (campaigns d)"
    by (rule find_update_one_other) (use False in auto)
  with False show ?thesis
    by (simp add: status_of_def set_status_def)
qed

lemma start_campaign_status:
  "status_of (snd (start_campaign auth clock cid d)) oid' = status_of d oid'
   \<or> status_of (snd (start_campaign auth clock cid d)) oid' = Some ''active''"
  by (auto simp: start_campaign_def status_of_set_status bind_err_def db_call_def
      split: sum.splits option.splits)

lemma stop_campaign_status:
  "status_of (snd (stop_campaign clock cid d)) oid' = status_of d oid'
   \<or> status_of (snd (stop_campaign clock cid d)) oid' = Some ''paused''"
  by (auto simp: stop_campaign_def status_of_set_status bind_err_def db_call_def
      split: sum.splits option.splits)

lemma run_lifecycle_status:
  "status_of (run_lifecycle ops d) oid' \<in> {status_of d oid', Some ''active'', Some ''paused''}"
proof (induction ops arbitrary: d rule: rev_induct)
  case Nil
  then show ?case by (simp add: run_lifecycle_def)
next
  case (snoc x xs)
  have step: "run_lifecycle (xs @ [x]) d = apply_lifecycle_op x (run_lifecycle xs d)"
    by (simp add: run_lifecycle_def)
  show ?case
  proof (cases x)
    case (Start auth clock cid)
    with snoc[of d] start_campaign_status[of auth clock cid "run_lifecycle xs d" oid'] show ?thesis
      unfolding step by auto
  next
    case (Stop clock cid)
    with snoc[of d] stop_campaign_status[of clock cid "run_lifecycle xs d" oid'] show ?thesis
      unfolding step by auto
  qed
qed

text \<open>
  Claim C3, as the code has it. A start without an authenticated session changes nothing.
  A start that succeeds (session, well-formed id, no store error) leaves the campaign
  \<^verbatim>\<open>active\<close> whatever its status was, and a stop that succeeds leaves it \<^verbatim>\<open>paused\<close>
  whatever its status was; no other campaign changes its status. So after any sequence
  of starts and stops a campaign has its first status, \<^verbatim>\<open>active\<close> or \<^verbatim>\<open>paused\<close>: none is
  ever moved to \<^verbatim>\<open>draft\<close> or \<^verbatim>\<open>completed\<close>.
\<close>

theorem C3_status_transitions:
  "snd (start_campaign False clock cid d) = d
   \<and> (ObjectId cid = Inr oid \<and> db_fault d CM_Start = None \<longrightarrow>
        status_of (snd (start_campaign True clock cid d)) oid = map_option (\<lambda>_. ''active'') (status_of d oid))
   \<and> (ObjectId cid = Inr oid \<and> db_fault d CM_Stop = None \<longrightarrow>
        status_of (snd (stop_campaign clock cid d)) oid = map_option (\<lambda>_. ''paused'') (status_of d oid))
   \<and> (ObjectId cid = Inr oid \<and> oid' \<noteq> oid \<longrightarrow>
        status_of (snd (start_campaign auth clock cid d)) oid' = status_of d oid'
        \<and> status_of (snd (stop_campaign clock cid d)) oid' = status_of d oid')
   \<and> status_of (run_lifecycle ops d) oid' \<in> {status_of d oid', Some ''active'', Some ''paused''}"
proof -
  have a: "snd (start_campaign False clock cid d) = d"
    by (simp add: start_campaign_def)
  have b: "ObjectId cid = Inr oid \<and> db_fault d CM_Start = None \<longrightarrow>
        status_of (snd (start_campaign True clock cid d)) oid = map_option (\<lambda>_. ''active'') (status_of d oid)"
    by (simp add: start_campaign_def bind_err_def db_call_def status_of_set_status)
  have c: "ObjectId cid = Inr oid \<and> db_fault d CM_Stop = None \<longrightarrow>
        status_of (snd (stop_campaign clock cid d)) oid = map_option (\<lambda>_. ''paused'') (status_of d oid)"
    by (simp add: stop_campaign_def bind_err_def db_call_def status_of_set_status)
  have e: "ObjectId cid = Inr oid \<and> oid' \<noteq> oid \<longrightarrow>
        status_of (snd (start_campaign auth clock cid d)) oid' = status_of d oid'
        \<and> status_of (snd (stop_campaign clock cid d)) oid' = status_of d oid'"
    by (auto simp: start_campaign_def stop_campaign_def bind_err_def db_call_def status_of_set_status
        split: option.splits)
  from a b c e run_lifecycle_status[of ops d oid'] show ?thesis by blast
qed

lemma example_id_ok: "ObjectId example_id = Inr example_id"
  by code_simp

lemma created_status: "status_of created_db example_id = Some ''draft''"
  by code_simp

lemma created_fault: "db_fault created_db = (\<lambda>op. None)"
  by (simp add: created_db_def create_campaign_def empty_db_def db_call_def)

text \<open>Claim C3, witness: the created campaign is started, and stopped; an id without a
  campaign stays without one.\<close>

theorem C3_status_transitions_witness:
  "ObjectId example_id = Inr example_id \<and> db_fault created_db CM_Start = None
   \<and> db_fault created_db CM_Stop = None
   \<and> status_of created_db example_id = Some ''draft''
   \<and> status_of (snd (start_campaign True ten_oclock example_id created_db)) example_id = Some ''active''
   \<and> status_of (snd (stop_campaign ten_oclock example_id created_db)) example_id = Some ''paused''
   \<and> ''ffffffffffffffffffffffff'' \<noteq> example_id
   \<and> status_of (snd (stop_campaign ten_oclock example_id created_db)) ''ffffffffffffffffffffffff''
       = status_of created_db ''ffffffffffffffffffffffff''"
  using C3_status_transitions [of ten_oclock example_id created_db example_id
      "''ffffffffffffffffffffffff''" True "[]"]
  by (simp add: example_id_ok created_status created_fault) (simp add: example_id_def)

text \<open>
  Claim C3 as stated fails: a stop moves a \<^verbatim>\<open>draft\<close> campaign to \<^verbatim>\<open>paused\<close>, and a start
  moves a \<^verbatim>\<open>completed\<close> campaign to \<^verbatim>\<open>active\<close>.
\<close>

theorem C3_status_transitions_counterexample:
  "status_of created_db example_id = Some ''draft''
   \<and> status_of (snd (stop_campaign ten_oclock example_id created_db)) example_id = Some ''paused''
   \<and> status_of (set_status example_id 0 ''completed'' created_db) example_id = Some ''completed''
   \<and> status_of (snd (start_campaign True ten_oclock example_id
         (set_status example_id 0 ''completed'' created_db))) example_id = Some ''active''"
  by code_simp

subsection \<open>Rate Limiter\<close>

lemma bind_err_Inr: "bind_err m f = Inr y \<longleftrightarrow> (\<exists>x. m = Inr x \<and> f x = Inr y)"
  by (cases m) (simp_all add: bind_err_def)

lemma db_call_Inr: "db_call d op x = Inr y \<longleftrightarrow> db_fault d op = None \<and> y = x"
  by (cases "db_fault d op") (auto simp: db_call_def)

lemma min_delay_allowed:
  "min_delay_check d clock oid = Inr (True, r) \<Longrightarrow> db_fault d RL_FindLast = None \<and> r = ''OK''"
  by (auto simp: min_delay_check_def bind_err_Inr db_call_Inr Let_def split: option.splits if_splits)

lemma hourly_allowed:
  "hourly_limit_check d clock oid = Inr (True, r) \<Longrightarrow>
   db_fault d RL_CountHour = None \<and> db_fault d RL_FindLast = None \<and> r = ''OK''"
  by (auto simp: hourly_limit_check_def bind_err_Inr db_call_Inr dest: min_delay_allowed split: if_splits)

lemma daily_allowed:
  "daily_limit_check d clock oid c = Inr (True, r) \<Longrightarrow>
   db_fault d RL_CountToday = None \<and> db_fault d RL_CountHour = None
   \<and> db_fault d RL_FindLast = None \<and> r = ''OK''"
  by (auto simp: daily_limit_check_def bind_err_Inr db_call_Inr Let_def dest: hourly_allowed split: if_splits)

lemma try_allowed:
  "can_post_reply_try d clock cid = Inr (True, r) \<Longrightarrow>
   (\<exists>oid. ObjectId cid = Inr oid) \<and> db_fault d RL_FindCampaign = None
   \<and> db_fault d RL_CountToday = None \<and> db_fault d RL_CountHour = None
   \<and> db_fault d RL_FindLast = None \<and> r = ''OK''"
  by (auto simp: can_post_reply_try_def bind_err_Inr db_call_Inr dest: daily_allowed split: option.splits)

lemma can_post_reply_allowed:
  assumes "fst (can_post_reply d clock cid)"
  shows "(\<exists>oid. ObjectId cid = Inr oid) \<and> db_fault d RL_FindCampaign = None
         \<and> db_fault d RL_CountToday = None \<and> db_fault d RL_CountHour = None
         \<and> db_fault d RL_FindLast = None \<and> snd (can_post_reply d clock cid) = ''OK''"
proof (cases "can_post_reply_try d clock cid")
  case (Inl e)
  with assms show ?thesis by (simp add: can_post_reply_def)
next
  case (Inr res)
  with assms have "can_post_reply_try d clock cid = Inr (True, snd res)"
    by (cases res) (simp add: can_post_reply_def)
  from try_allowed[OF this] Inr show ?thesis by (simp add: can_post_reply_def)
qed

lemma can_post_reply_bad_id:
  "ObjectId cid = Inl e \<Longrightarrow> can_post_reply d clock cid = (False, ''Error: '' @ str_of_error e)"
  by (simp add: can_post_reply_def can_post_reply_try_def bind_err_def)

lemma can_post_reply_find_fault:
  "ObjectId cid = Inr oid \<Longrightarrow> db_fault d RL_FindCampaign = Some m \<Longrightarrow>
   can_post_reply d clock cid = (False, ''Error: '' @ m)"
  by (simp add: can_post_reply_def can_post_reply_try_def bind_err_def db_call_def)

lemma can_post_reply_count_fault:
  "ObjectId cid = Inr oid \<Longrightarrow> db_fault d RL_FindCampaign = None \<Longrightarrow>
   find (\<lambda>c. campaign_id c = oid) (campaigns d) = Some c \<Longrightarrow>
   db_fault d RL_CountToday = Some m \<Longrightarrow>
   can_post_reply d clock cid = (False, ''Error: '' @ m)"
  by (simp add: can_post_reply_def can_post_reply_try_def daily_limit_check_def bind_err_def db_call_def)

lemma can_post_reply_raise:
  "can_post_reply_try d clock cid = Inl e \<Longrightarrow>
   can_post_reply d clock cid = (False, ''Error: '' @ str_of_error e)"
  by (simp add: can_post_reply_def)

lemma bind_err_Inl: "bind_err m f = Inl e \<longleftrightarrow> m = Inl e \<or> (\<exists>x. m = Inr x \<and> f x = Inl e)"
  by (cases m) (simp_all add: bind_err_def)

lemma db_call_Inl: "db_call d op x = Inl e \<longleftrightarrow> db_fault d op = Some (str_of_error e)"
  by (cases "db_fault d op"; cases e) (auto simp: db_call_def)

lemma min_delay_raise:
  "min_delay_check d clock oid = Inl e \<Longrightarrow> \<exists>op. db_fault d op = Some (str_of_error e)"
  by (auto simp: min_delay_check_def bind_err_Inl db_call_Inl db_call_Inr Let_def split: option.splits if_splits)

lemma hourly_raise:
  "hourly_limit_check d clock oid = Inl e \<Longrightarrow> \<exists>op. db_fault d op = Some (str_of_error e)"
  by (auto simp: hourly_limit_check_def bind_err_Inl db_call_Inl db_call_Inr dest: min_delay_raise split: if_splits)

lemma daily_raise:
  "daily_limit_check d clock oid c = Inl e \<Longrightarrow> \<exists>op. db_fault d op = Some (str_of_error e)"
  by (auto simp: daily_limit_check_def bind_err_Inl db_call_Inl db_call_Inr Let_def dest: hourly_raise split: if_splits)

lemma try_raise:
  "can_post_reply_try d clock cid = Inl e \<Longrightarrow>
   ObjectId cid = Inl e \<or> (\<exists>op. db_fault d op = Some (str_of_error e))"
  by (auto simp: can_post_reply_try_def bind_err_Inl db_call_Inl db_call_Inr dest: daily_raise split: option.splits)

text \<open>
  Claim C10. \<^verbatim>\<open>can_post_reply\<close> returns a pair for every input. A malformed campaign id
  gives the denial \<open>(False, Error: ...)\<close>, and so does a failing campaign lookup or a
  failing ledger count; whatever exception the body raises, it comes from the id or from
  a store call, and the answer is the denial with the reason \<open>Error: \<close> followed by its
  text. An allowing answer is only given when the id is well-formed and no store call
  has failed, and then with the reason \<open>OK\<close>.
\<close>

theorem C10_fail_closed:
  "(ObjectId cid = Inl e \<longrightarrow> can_post_reply d clock cid = (False, ''Error: '' @ str_of_error e))
   \<and> (ObjectId cid = Inr oid \<and> db_fault d RL_FindCampaign = Some m \<longrightarrow>
        can_post_reply d clock cid = (False, ''Error: '' @ m))
   \<and> (ObjectId cid = Inr oid \<and> db_fault d RL_FindCampaign = None
        \<and> find (\<lambda>c. campaign_id c = oid) (campaigns d) = Some c
        \<and> db_fault d RL_CountToday = Some m \<longrightarrow>
        can_post_reply d clock cid = (False, ''Error: '' @ m))
   \<and> (can_post_reply_try d clock cid = Inl e \<longrightarrow>
        can_post_reply d clock cid = (False, ''Error: '' @ str_of_error e)
        \<and> (ObjectId cid = Inl e \<or> (\<exists>op. db_fault d op = Some (str_of_error e))))
   \<and> (fst (can_post_reply d clock cid) \<longrightarrow>
        (\<exists>oid. ObjectId cid = Inr oid) \<and> db_fault d RL_FindCampaign = None
        \<and> db_fault d RL_CountToday = None \<and> db_fault d RL_CountHour = None
        \<and> db_fault d RL_FindLast = None \<and> snd (can_post_reply d clock cid) = ''OK'')"
  using can_post_reply_bad_id[of cid e d clock] can_post_reply_find_fault[of cid oid d m clock]
    can_post_reply_count_fault[of cid oid d c m clock] can_post_reply_raise[of d clock cid e]
    try_raise[of d clock cid e] can_post_reply_allowed[of d clock cid]
  by blast

lemma bad_id: "ObjectId ''not-an-id'' = Inl (invalid_id ''not-an-id'')"
  by code_simp

lemma bad_id_text: "str_of_error (invalid_id ''not-an-id'') =
    CHR 0x27 # ''not-an-id'' @ CHR 0x27
      # '' is not a valid ObjectId, it must be a 12-byte input or a 24-character hex string''"
  by code_simp

lemma blank_id: "ObjectId ''0123456789abcdef  123456'' = Inr ''0123456789abcdef123456''"
  by code_simp

lemma example_id_ok2: "ObjectId example_id = Inr example_id"
  by code_simp

lemma broken_find: "find (\<lambda>c. campaign_id c = example_id) (campaigns broken_db) = Some example_campaign"
  by code_simp

lemma broken_faults: "db_fault broken_db RL_FindCampaign = None \<and> db_fault broken_db RL_CountToday = Some ''connection lost''"
  by (simp add: broken_db_def)

lemma created_allowed: "can_post_reply created_db ten_oclock example_id = (True, ''OK'')"
  by code_simp

text \<open>Claim C10, witness: a malformed id, a store whose first count query fails, and a
  store that allows.\<close>

theorem C10_fail_closed_witness:
  "can_post_reply replied_db ten_oclock ''not-an-id'' = (False,
      ''Error: '' @ CHR 0x27 # ''not-an-id'' @ CHR 0x27
        # '' is not a valid ObjectId, it must be a 12-byte input or a 24-character hex string'')
   \<and> ObjectId example_id = Inr example_id \<and> db_fault broken_db RL_CountToday = Some ''connection lost''
   \<and> can_post_reply broken_db ten_oclock example_id = (False, ''Error: connection lost'')
   \<and> fst (can_post_reply created_db ten_oclock example_id)
   \<and> db_fault created_db RL_CountToday = None"
  using C10_fail_closed [of "''not-an-id''" "invalid_id ''not-an-id''"
      replied_db ten_oclock example_id "''x''" example_campaign]
    C10_fail_closed [of example_id "Exception []" broken_db ten_oclock example_id "''connection lost''" example_campaign]
    C10_fail_closed [of example_id "Exception []" created_db ten_oclock example_id "''x''" example_campaign]
  by (simp add: bad_id bad_id_text example_id_ok2 broken_find broken_faults created_allowed)

text \<open>
  Claim C1 fails on the code. The campaign was created with a daily limit of 1, which
  \<^verbatim>\<open>create_campaign\<close> stores as \<^verbatim>\<open>daily_reply_limit\<close>; the ledger holds one real reply
  posted three hours ago on the same day, so the count has reached the limit. The rate
  limiter reads \<^verbatim>\<open>max_replies_per_day\<close>, which no campaign has, compares the count with
  50 and allows the post.
\<close>

theorem C1_daily_limit_not_read:
  "find (\<lambda>c. campaign_id c = example_id) (campaigns replied_db) = Some example_campaign
   \<and> daily_reply_limit example_campaign = 1
   \<and> max_replies_per_day example_campaign = None
   \<and> count_posted_since (campaign_replies replied_db) example_id (today_start_of (ten_oclock 0)) = 1
   \<and> can_post_reply replied_db ten_oclock example_id = (True, ''OK'')"
  by code_simp

subsection \<open>The reply step\<close>

lemma db_call_ok: "db_fault d op = None \<Longrightarrow> db_call d op x = Inr x"
  by (simp add: db_call_def)

lemma set_reply_status_replies [simp]:
  "campaign_replies (set_reply_status pid st d) = campaign_replies d"
  "campaigns (set_reply_status pid st d) = campaigns d"
  "db_fault (set_reply_status pid st d) = db_fault d"
  by (simp_all add: set_reply_status_def)

lemma duplicate_step:
  assumes "ObjectId cid = Inr oid"
    and "find (\<lambda>c. campaign_id c = oid) (campaigns (store w)) = Some c"
    and "status c = ''active''"
    and "find (is_pending oid) (matched_posts (store w)) = Some p"
    and "find (is_posted_reply_to oid (tweet_id p)) (campaign_replies (store w)) = Some r"
  shows "process_pending_reply ai tp clock cid w =
           (case db_call (store w) PP_FindCampaign () of Inl e \<Rightarrow> (error_outcome e, w) | Inr _ \<Rightarrow>
            case db_call (store w) PP_FindPending () of Inl e \<Rightarrow> (error_outcome e, w) | Inr _ \<Rightarrow>
            case db_call (store w) PP_FindExisting () of Inl e \<Rightarrow> (error_outcome e, w) | Inr _ \<Rightarrow>
            case db_call (store w) PP_MarkDuplicate () of Inl e \<Rightarrow> (error_outcome e, w) | Inr _ \<Rightarrow>
              (failure\<lparr>reason := Some ''Duplicate tweet''\<rparr>,
               w\<lparr>store := set_reply_status (mp_id p) ''duplicate'' (store w)\<rparr>))"
  using assms
  by (simp add: process_pending_reply_def db_call_def Let_def split: option.splits)

lemma find_by_id:
  "find P xs = Some p \<Longrightarrow> distinct (map f xs) \<Longrightarrow> find (\<lambda>q. f q = f p) xs = Some p"
proof (induction xs)
  case Nil
  then show ?case by simp
next
  case (Cons x xs)
  show ?case
  proof (cases "P x")
    case True
    with Cons.prems show ?thesis by simp
  next
    case False
    with Cons.prems have in_tail: "find P xs = Some p" by simp
    then have "p \<in> set xs" by (auto simp: find_Some_iff)
    with Cons.prems have "f x \<noteq> f p" by auto
    with Cons.IH[OF in_tail] Cons.prems show ?thesis by simp
  qed
qed

lemma find_update_one_same:
  "(\<And>x. P x \<Longrightarrow> P (f x)) \<Longrightarrow> find P (update_one P f xs) = map_option f (find P xs)"
  by (induction xs) auto

lemma marked_duplicate:
  assumes "find (is_pending oid) (matched_posts d) = Some p"
    and "distinct (map mp_id (matched_posts d))"
  shows "find (\<lambda>q. mp_id q = mp_id p) (matched_posts (set_reply_status (mp_id p) ''duplicate'' d))
           = Some (p\<lparr>reply_status := ''duplicate''\<rparr>)"
proof -
  have "find (\<lambda>q. mp_id q = mp_id p) (matched_posts d) = Some p"
    using assms by (rule find_by_id)
  then show ?thesis
    by (simp add: set_reply_status_def find_update_one_same)
qed

lemma no_pending_left:
  "filter (is_pending oid) xs = [p] \<Longrightarrow> distinct (map mp_id xs) \<Longrightarrow>
   find (is_pending oid)
     (update_one (\<lambda>q. mp_id q = mp_id p) (\<lambda>q. q\<lparr>reply_status := ''duplicate''\<rparr>) xs) = None"
proof (induction xs)
  case Nil
  then show ?case by simp
next
  case (Cons x xs)
  show ?case
  proof (cases "is_pending oid x")
    case True
    with Cons.prems have xp: "x = p" and rest: "filter (is_pending oid) xs = []" by simp_all
    from rest have "find (is_pending oid) xs = None"
      by (simp add: find_None_iff filter_empty_conv)
    moreover have "\<not> is_pending oid (p\<lparr>reply_status := ''duplicate''\<rparr>)"
      by (simp add: is_pending_def)
    ultimately show ?thesis using xp by simp
  next
    case False
    with Cons.prems have rest: "filter (is_pending oid) xs = [p]" by simp
    then have "p \<in> set (filter (is_pending oid) xs)" by simp
    then have "p \<in> set xs" by simp
    with Cons.prems have "mp_id x \<noteq> mp_id p" by auto
    with False Cons.IH[OF rest] Cons.prems show ?thesis by simp
  qed
qed

lemma no_pending_step:
  assumes "ObjectId cid = Inr oid"
    and "find (\<lambda>c. campaign_id c = oid) (campaigns (store w)) = Some c"
    and "status c = ''active''"
    and "find (is_pending oid) (matched_posts (store w)) = None"
    and "db_fault (store w) PP_FindCampaign = None"
    and "db_fault (store w) PP_FindPending = None"
  shows "process_pending_reply ai tp clock cid w = (failure\<lparr>reason := Some ''No pending posts''\<rparr>, w)"
  using assms by (simp add: process_pending_reply_def db_call_def Let_def)

text \<open>
  Claim C4. The campaign is found and active, \<open>p\<close> is the pending matched post that the
  step selects, and the ledger has a posted reply of the campaign to the tweet of \<open>p\<close>.
  Then the step inserts no reply into the ledger and makes no platform call, whatever
  store call fails. When no store call fails it returns the reason \<open>Duplicate tweet\<close>
  and changes nothing but the status of the matched post with the id of \<open>p\<close>, which is
  \<open>p\<close> marked \<^verbatim>\<open>duplicate\<close> (ids being unique); and if \<open>p\<close> was the only pending post of
  the campaign, a second step returns \<open>No pending posts\<close> and changes nothing, so no
  second reply is created.
\<close>

theorem C4_duplicate_guard:
  assumes "ObjectId cid = Inr oid"
    and "find (\<lambda>c. campaign_id c = oid) (campaigns (store w)) = Some c"
    and "status c = ''active''"
    and "find (is_pending oid) (matched_posts (store w)) = Some p"
    and "find (is_posted_reply_to oid (tweet_id p)) (campaign_replies (store w)) = Some r"
  shows "campaign_replies (store (snd (process_pending_reply ai tp clock cid w))) = campaign_replies (store w)
       \<and> tweet_calls (snd (process_pending_reply ai tp clock cid w)) = tweet_calls w
       \<and> (db_fault (store w) PP_FindCampaign = None \<and> db_fault (store w) PP_FindPending = None
          \<and> db_fault (store w) PP_FindExisting = None \<and> db_fault (store w) PP_MarkDuplicate = None \<longrightarrow>
            process_pending_reply ai tp clock cid w =
              (failure\<lparr>reason := Some ''Duplicate tweet''\<rparr>,
               w\<lparr>store := set_reply_status (mp_id p) ''duplicate'' (store w)\<rparr>)
          \<and> (distinct (map mp_id (matched_posts (store w))) \<longrightarrow>
               find (\<lambda>q. mp_id q = mp_id p)
                 (matched_posts (set_reply_status (mp_id p) ''duplicate'' (store w)))
               = Some (p\<lparr>reply_status := ''duplicate''\<rparr>))
          \<and> (distinct (map mp_id (matched_posts (store w)))
               \<and> filter (is_pending oid) (matched_posts (store w)) = [p] \<longrightarrow>
               process_pending_reply ai tp clock' cid
                 (w\<lparr>store := set_reply_status (mp_id p) ''duplicate'' (store w)\<rparr>)
               = (failure\<lparr>reason := Some ''No pending posts''\<rparr>,
                  w\<lparr>store := set_reply_status (mp_id p) ''duplicate'' (store w)\<rparr>)))"
proof -
  note step = duplicate_step[OF assms, of ai tp clock]
  have unchanged: "campaign_replies (store (snd (process_pending_reply ai tp clock cid w))) = campaign_replies (store w)
       \<and> tweet_calls (snd (process_pending_reply ai tp clock cid w)) = tweet_calls w"
    unfolding step by (simp add: db_call_def split: option.splits)
  have marked: "distinct (map mp_id (matched_posts (store w))) \<longrightarrow>
               find (\<lambda>q. mp_id q = mp_id p)
                 (matched_posts (set_reply_status (mp_id p) ''duplicate'' (store w)))
               = Some (p\<lparr>reply_status := ''duplicate''\<rparr>)"
    using marked_duplicate[OF assms(4)] by blast
  {
    assume nf: "db_fault (store w) PP_FindCampaign = None" "db_fault (store w) PP_FindPending = None"
      "db_fault (store w) PP_FindExisting = None" "db_fault (store w) PP_MarkDuplicate = None"
    have first: "process_pending_reply ai tp clock cid w =
              (failure\<lparr>reason := Some ''Duplicate tweet''\<rparr>,
               w\<lparr>store := set_reply_status (mp_id p) ''duplicate'' (store w)\<rparr>)"
      unfolding step using nf by (simp add: db_call_def)
    {
      assume d: "distinct (map mp_id (matched_posts (store w)))"
        and only: "filter (is_pending oid) (matched_posts (store w)) = [p]"
      let ?w' = "w\<lparr>store := set_reply_status (mp_id p) ''duplicate'' (store w)\<rparr>"
      have none: "find (is_pending oid) (matched_posts (store ?w')) = None"
        using no_pending_left[OF only d] by (simp add: set_reply_status_def)
      have "process_pending_reply ai tp clock' cid ?w' = (failure\<lparr>reason := Some ''No pending posts''\<rparr>, ?w')"
        by (rule no_pending_step[OF assms(1) _ assms(3) none]) (use assms(2) nf in simp_all)
    }
    with first have "process_pending_reply ai tp clock cid w =
              (failure\<lparr>reason := Some ''Duplicate tweet''\<rparr>,
               w\<lparr>store := set_reply_status (mp_id p) ''duplicate'' (store w)\<rparr>)
          \<and> (distinct (map mp_id (matched_posts (store w)))
               \<and> filter (is_pending oid) (matched_posts (store w)) = [p] \<longrightarrow>
               process_pending_reply ai tp clock' cid
                 (w\<lparr>store := set_reply_status (mp_id p) ''duplicate'' (store w)\<rparr>)
               = (failure\<lparr>reason := Some ''No pending posts''\<rparr>,
                  w\<lparr>store := set_reply_status (mp_id p) ''duplicate'' (store w)\<rparr>))"
      by blast
  }
  with unchanged marked show ?thesis by blast
qed

lemma dup_facts:
  "ObjectId example_id = Inr example_id"
  "find (\<lambda>c. campaign_id c = example_id) (campaigns (store duplicate_world)) = Some active_campaign"
  "status active_campaign = ''active''"
  "find (is_pending example_id) (matched_posts (store duplicate_world)) = Some example_pending"
  "find (is_posted_reply_to example_id (tweet_id example_pending)) (campaign_replies (store duplicate_world))
     = Some example_reply"
  "filter (is_pending example_id) (matched_posts (store duplicate_world)) = [example_pending]"
  by code_simp+

lemma dup_plain:
  "db_fault (store duplicate_world) = (\<lambda>op. None)"
  "matched_posts (store duplicate_world) = [example_pending]"
  "campaign_replies (store duplicate_world) = [example_reply]"
  "tweet_calls duplicate_world = []"
  by (simp_all add: duplicate_world_def)

text \<open>Claim C4, witness: the pending post for tweet 1001, which already has a posted
  reply; the step is run twice.\<close>

theorem C4_duplicate_guard_witness:
  "ObjectId example_id = Inr example_id
   \<and> find (is_pending example_id) (matched_posts (store duplicate_world)) = Some example_pending
   \<and> find (is_posted_reply_to example_id (tweet_id example_pending)) (campaign_replies (store duplicate_world))
       = Some example_reply
   \<and> fst (process_pending_reply example_ai example_platform ten_oclock example_id duplicate_world)
       = failure\<lparr>reason := Some ''Duplicate tweet''\<rparr>
   \<and> campaign_replies (store (snd (process_pending_reply example_ai example_platform ten_oclock
         example_id duplicate_world))) = [example_reply]
   \<and> matched_posts (store (snd (process_pending_reply example_ai example_platform ten_oclock
         example_id duplicate_world))) = [example_pending\<lparr>reply_status := ''duplicate''\<rparr>]
   \<and> fst (process_pending_reply example_ai example_platform ten_oclock example_id
         (snd (process_pending_reply example_ai example_platform ten_oclock example_id duplicate_world)))
       = failure\<lparr>reason := Some ''No pending posts''\<rparr>
   \<and> campaign_replies (store (snd (process_pending_reply example_ai example_platform ten_oclock example_id
         (snd (process_pending_reply example_ai example_platform ten_oclock example_id duplicate_world)))))
       = [example_reply]"
proof -
  note guard = C4_duplicate_guard [OF dup_facts(1-5), of example_ai example_platform ten_oclock ten_oclock]
  have no_fault: "db_fault (store duplicate_world) PP_FindCampaign = None"
    "db_fault (store duplicate_world) PP_FindPending = None"
    "db_fault (store duplicate_world) PP_FindExisting = None"
    "db_fault (store duplicate_world) PP_MarkDuplicate = None"
    by (simp_all add: dup_plain)
  have ids: "distinct (map mp_id (matched_posts (store duplicate_world)))"
    by (simp add: dup_plain)
  from guard no_fault have first:
    "process_pending_reply example_ai example_platform ten_oclock example_id duplicate_world =
       (failure\<lparr>reason := Some ''Duplicate tweet''\<rparr>,
        duplicate_world\<lparr>store := set_reply_status (mp_id example_pending) ''duplicate'' (store duplicate_world)\<rparr>)"
    by blast
  from guard no_fault ids dup_facts(6) have second:
    "process_pending_reply example_ai example_platform ten_oclock example_id
       (duplicate_world\<lparr>store := set_reply_status (mp_id example_pending) ''duplicate'' (store duplicate_world)\<rparr>) =
       (failure\<lparr>reason := Some ''No pending posts''\<rparr>,
        duplicate_world\<lparr>store := set_reply_status (mp_id example_pending) ''duplicate'' (store duplicate_world)\<rparr>)"
    by blast
  have marked: "matched_posts (set_reply_status (mp_id example_pending) ''duplicate'' (store duplicate_world))
      = [example_pending\<lparr>reply_status := ''duplicate''\<rparr>]"
    by (simp add: set_reply_status_def dup_plain)
  have after: "fst (process_pending_reply example_ai example_platform ten_oclock example_id duplicate_world)
       = failure\<lparr>reason := Some ''Duplicate tweet''\<rparr>
   \<and> campaign_replies (store (snd (process_pending_reply example_ai example_platform ten_oclock
         example_id duplicate_world))) = [example_reply]
   \<and> matched_posts (store (snd (process_pending_reply example_ai example_platform ten_oclock
         example_id duplicate_world))) = [example_pending\<lparr>reply_status := ''duplicate''\<rparr>]
   \<and> fst (process_pending_reply example_ai example_platform ten_oclock example_id
         (snd (process_pending_reply example_ai example_platform ten_oclock example_id duplicate_world)))
       = failure\<lparr>reason := Some ''No pending posts''\<rparr>
   \<and> campaign_replies (store (snd (process_pending_reply example_ai example_platform ten_oclock example_id
         (snd (process_pending_reply example_ai example_platform ten_oclock example_id duplicate_world)))))
       = [example_reply]"
    by (simp add: first second marked dup_plain(3))
  from dup_facts(1,4,5) after show ?thesis by blast
qed

subsection \<open>Dry run\<close>

lemma post_reply_dry_run:
  "generate_reply ai p c = Some reply \<Longrightarrow>
   post_reply ai tp p c True calls = (dry_run_outcome reply, calls)"
  by (simp add: post_reply_def dry_run_outcome_def failure_def)

lemma record_result_dry:
  "campaigns (snd (record_result oid p c (dry_run_outcome reply) clock d)) = campaigns d"
  by (simp add: record_result_def dry_run_outcome_def db_call_def get_or_def Let_def split: option.splits)

lemma record_result_dry_ok:
  "db_fault d PP_InsertReply = None \<Longrightarrow> db_fault d PP_UpdatePost = None \<Longrightarrow>
   record_result oid p c (dry_run_outcome reply) clock d =
     (dry_run_outcome reply,
      set_reply_status (mp_id p) ''posted''
        (d\<lparr>campaign_replies := campaign_replies d @ [reply_doc oid p c (dry_run_outcome reply) clock]\<rparr>))"
  by (simp add: record_result_def dry_run_outcome_def db_call_def get_or_def Let_def)

lemma dry_step:
  assumes "ObjectId cid = Inr oid"
    and "find (\<lambda>c. campaign_id c = oid) (campaigns (store w)) = Some c"
    and "status c = ''active''"
    and "dry_run c"
    and "find (is_pending oid) (matched_posts (store w)) = Some p"
    and "find (is_posted_reply_to oid (tweet_id p)) (campaign_replies (store w)) = None"
    and "generate_reply ai p c = Some reply"
  shows "process_pending_reply ai tp clock cid w =
           (case db_call (store w) PP_FindCampaign () of Inl e \<Rightarrow> (error_outcome e, w) | Inr _ \<Rightarrow>
            case db_call (store w) PP_FindPending () of Inl e \<Rightarrow> (error_outcome e, w) | Inr _ \<Rightarrow>
            case db_call (store w) PP_FindExisting () of Inl e \<Rightarrow> (error_outcome e, w) | Inr _ \<Rightarrow>
              (fst (record_result oid p c (dry_run_outcome reply) clock (store w)),
               \<lparr>store = snd (record_result oid p c (dry_run_outcome reply) clock (store w)),
                tweet_calls = tweet_calls w\<rparr>))"
  using assms
  by (simp add: process_pending_reply_def db_call_def Let_def post_reply_dry_run case_prod_unfold
      split: option.splits)

lemma record_result_campaigns:
  "campaigns (snd (record_result oid p c result clock d)) \<noteq> campaigns d \<Longrightarrow>
   success result \<and> \<not> get_or (o_dry_run result) False \<and> fst (record_result oid p c result clock d) = result"
  by (auto simp: record_result_def db_call_def Let_def split: option.splits if_splits)

lemma post_reply_real:
  "success (fst (post_reply ai tp p c dry calls)) \<Longrightarrow>
   \<not> get_or (o_dry_run (fst (post_reply ai tp p c dry calls))) False \<Longrightarrow>
   o_dry_run (fst (post_reply ai tp p c dry calls)) = Some False"
  by (auto simp: post_reply_def failure_def get_or_def split: option.splits if_splits sum.splits tweet_result.splits)

lemma process_campaigns_changed:
  assumes "campaigns (store (snd (process_pending_reply ai tp clock cid w))) \<noteq> campaigns (store w)"
  shows "success (fst (process_pending_reply ai tp clock cid w))
         \<and> o_dry_run (fst (process_pending_reply ai tp clock cid w)) = Some False"
proof -
  obtain oid where oid: "ObjectId cid = Inr oid"
    using assms by (cases "ObjectId cid") (auto simp: process_pending_reply_def)
  obtain c where c: "db_call (store w) PP_FindCampaign (find (\<lambda>c. campaign_id c = oid) (campaigns (store w))) = Inr (Some c)"
    and act: "status c = ''active''"
    using assms oid
    by (auto simp: process_pending_reply_def Let_def split: sum.splits option.splits if_splits)
  obtain p where p: "db_call (store w) PP_FindPending (find (is_pending oid) (matched_posts (store w))) = Inr (Some p)"
    using assms oid c act
    by (auto simp: process_pending_reply_def Let_def split: sum.splits option.splits if_splits)
  have ex: "db_call (store w) PP_FindExisting
              (find (is_posted_reply_to oid (tweet_id p)) (campaign_replies (store w))) = Inr None"
    using assms oid c act p
    by (auto simp: process_pending_reply_def Let_def split: sum.splits option.splits if_splits)
  let ?pr = "post_reply ai tp p c (dry_run c) (tweet_calls w)"
  let ?rr = "record_result oid p c (fst ?pr) clock (store w)"
  have eq: "process_pending_reply ai tp clock cid w = (fst ?rr, \<lparr>store = snd ?rr, tweet_calls = snd ?pr\<rparr>)"
    using oid c act p ex by (simp add: process_pending_reply_def Let_def case_prod_unfold)
  with assms have "campaigns (snd ?rr) \<noteq> campaigns (store w)" by simp
  from record_result_campaigns[OF this] post_reply_real[of ai tp p c "dry_run c" "tweet_calls w"]
  show ?thesis unfolding eq by simp
qed

text \<open>
  Claim C8. With a generated reply and \<^verbatim>\<open>dry_run=True\<close>, \<^verbatim>\<open>post_reply\<close> returns the success
  outcome with \<^verbatim>\<open>dry_run = True\<close> and no tweet id, and the list of platform calls is as
  before. A reply step on an active dry-run campaign whose selected post has no posted
  reply yet leaves every campaign document, so every \<^verbatim>\<open>total_replies\<close>, as it was and
  makes no platform call, whatever store call fails; when none fails it returns the
  dry-run outcome, appends one ledger document and marks the post \<^verbatim>\<open>posted\<close>. For every
  reply step: if a campaign document has changed, the step returned a success that is
  not a dry run.
\<close>

theorem C8_dry_run:
  "(generate_reply ai p c = Some reply \<longrightarrow>
      post_reply ai tp p c True calls = (dry_run_outcome reply, calls)
      \<and> success (dry_run_outcome reply) \<and> o_dry_run (dry_run_outcome reply) = Some True
      \<and> o_tweet_id (dry_run_outcome reply) = None)
   \<and> (ObjectId cid = Inr oid
       \<and> find (\<lambda>c. campaign_id c = oid) (campaigns (store w)) = Some c
       \<and> status c = ''active'' \<and> dry_run c
       \<and> find (is_pending oid) (matched_posts (store w)) = Some p
       \<and> find (is_posted_reply_to oid (tweet_id p)) (campaign_replies (store w)) = None
       \<and> generate_reply ai p c = Some reply \<longrightarrow>
         campaigns (store (snd (process_pending_reply ai tp clock cid w))) = campaigns (store w)
       \<and> tweet_calls (snd (process_pending_reply ai tp clock cid w)) = tweet_calls w
       \<and> (db_fault (store w) PP_FindCampaign = None \<and> db_fault (store w) PP_FindPending = None
          \<and> db_fault (store w) PP_FindExisting = None \<and> db_fault (store w) PP_InsertReply = None
          \<and> db_fault (store w) PP_UpdatePost = None \<longrightarrow>
            process_pending_reply ai tp clock cid w =
              (dry_run_outcome reply,
               \<lparr>store = set_reply_status (mp_id p) ''posted''
                   ((store w)\<lparr>campaign_replies := campaign_replies (store w)
                       @ [reply_doc oid p c (dry_run_outcome reply) clock]\<rparr>),
                tweet_calls = tweet_calls w\<rparr>)))
   \<and> (campaigns (store (snd (process_pending_reply ai tp clock cid w))) \<noteq> campaigns (store w) \<longrightarrow>
         success (fst (process_pending_reply ai tp clock cid w))
         \<and> o_dry_run (fst (process_pending_reply ai tp clock cid w)) = Some False)"
proof -
  have a: "generate_reply ai p c = Some reply \<longrightarrow>
      post_reply ai tp p c True calls = (dry_run_outcome reply, calls)
      \<and> success (dry_run_outcome reply) \<and> o_dry_run (dry_run_outcome reply) = Some True
      \<and> o_tweet_id (dry_run_outcome reply) = None"
    by (simp add: post_reply_dry_run) (simp add: dry_run_outcome_def)
  {
    assume h: "ObjectId cid = Inr oid"
      "find (\<lambda>c. campaign_id c = oid) (campaigns (store w)) = Some c"
      "status c = ''active''" "dry_run c"
      "find (is_pending oid) (matched_posts (store w)) = Some p"
      "find (is_posted_reply_to oid (tweet_id p)) (campaign_replies (store w)) = None"
      "generate_reply ai p c = Some reply"
    note step = dry_step[OF h, of tp clock]
    have keep: "campaigns (store (snd (process_pending_reply ai tp clock cid w))) = campaigns (store w)
       \<and> tweet_calls (snd (process_pending_reply ai tp clock cid w)) = tweet_calls w"
      unfolding step by (simp add: db_call_def record_result_dry split: option.splits)
    {
      assume nf: "db_fault (store w) PP_FindCampaign = None" "db_fault (store w) PP_FindPending = None"
          "db_fault (store w) PP_FindExisting = None" "db_fault (store w) PP_InsertReply = None"
          "db_fault (store w) PP_UpdatePost = None"
      have "process_pending_reply ai tp clock cid w =
              (dry_run_outcome reply,
               \<lparr>store = set_reply_status (mp_id p) ''posted''
                   ((store w)\<lparr>campaign_replies := campaign_replies (store w)
                       @ [reply_doc oid p c (dry_run_outcome reply) clock]\<rparr>),
                tweet_calls = tweet_calls w\<rparr>)"
        unfolding step using nf by (simp add: db_call_def record_result_dry_ok)
    }
    with keep have "campaigns (store (snd (process_pending_reply ai tp clock cid w))) = campaigns (store w)
       \<and> tweet_calls (snd (process_pending_reply ai tp clock cid w)) = tweet_calls w
       \<and> (db_fault (store w) PP_FindCampaign = None \<and> db_fault (store w) PP_FindPending = None
          \<and> db_fault (store w) PP_FindExisting = None \<and> db_fault (store w) PP_InsertReply = None
          \<and> db_fault (store w) PP_UpdatePost = None \<longrightarrow>
            process_pending_reply ai tp clock cid w =
              (dry_run_outcome reply,
               \<lparr>store = set_reply_status (mp_id p) ''posted''
                   ((store w)\<lparr>campaign_replies := campaign_replies (store w)
                       @ [reply_doc oid p c (dry_run_outcome reply) clock]\<rparr>),
                tweet_calls = tweet_calls w\<rparr>))"
      by blast
  }
  with a process_campaigns_changed[of ai tp clock cid w] show ?thesis by blast
qed

lemma dry_facts:
  "ObjectId example_id = Inr example_id"
  "find (\<lambda>c. campaign_id c = example_id) (campaigns (store dry_run_world)) = Some dry_campaign"
  "status dry_campaign = ''active''"
  "dry_run dry_campaign"
  "find (is_pending example_id) (matched_posts (store dry_run_world)) = Some example_pending"
  "find (is_posted_reply_to example_id (tweet_id example_pending)) (campaign_replies (store dry_run_world)) = None"
  "generate_reply example_ai example_pending dry_campaign = Some ''Nice post! https://sho.rt/x''"
  "total_replies dry_campaign = 0"
  by code_simp+

lemma dry_plain:
  "db_fault (store dry_run_world) = (\<lambda>op. None)"
  "campaigns (store dry_run_world) = [dry_campaign]"
  "tweet_calls dry_run_world = []"
  by (simp_all add: dry_run_world_def)

text \<open>Claim C8, witness: a dry-run campaign with one pending post.\<close>

theorem C8_dry_run_witness:
  "dry_run dry_campaign
   \<and> generate_reply example_ai example_pending dry_campaign = Some ''Nice post! https://sho.rt/x''
   \<and> post_reply example_ai example_platform example_pending dry_campaign True []
       = (dry_run_outcome ''Nice post! https://sho.rt/x'', [])
   \<and> fst (process_pending_reply example_ai example_platform ten_oclock example_id dry_run_world)
       = dry_run_outcome ''Nice post! https://sho.rt/x''
   \<and> map total_replies (campaigns (store (snd (process_pending_reply example_ai example_platform
         ten_oclock example_id dry_run_world)))) = [0]
   \<and> tweet_calls (snd (process_pending_reply example_ai example_platform ten_oclock example_id
         dry_run_world)) = []"
proof -
  note dry = C8_dry_run [of example_ai example_pending dry_campaign "''Nice post! https://sho.rt/x''"
      example_platform "[]" example_id example_id dry_run_world ten_oclock]
  have no_fault: "db_fault (store dry_run_world) PP_FindCampaign = None"
    "db_fault (store dry_run_world) PP_FindPending = None"
    "db_fault (store dry_run_world) PP_FindExisting = None"
    "db_fault (store dry_run_world) PP_InsertReply = None"
    "db_fault (store dry_run_world) PP_UpdatePost = None"
    by (simp_all add: dry_plain)
  from dry dry_facts(7) have post:
    "post_reply example_ai example_platform example_pending dry_campaign True []
       = (dry_run_outcome ''Nice post! https://sho.rt/x'', [])"
    by blast
  from dry dry_facts(1-7) have keep:
    "campaigns (store (snd (process_pending_reply example_ai example_platform ten_oclock example_id
        dry_run_world))) = campaigns (store dry_run_world)"
    "tweet_calls (snd (process_pending_reply example_ai example_platform ten_oclock example_id
        dry_run_world)) = tweet_calls dry_run_world"
    by blast+
  from dry dry_facts(1-7) no_fault have res:
    "fst (process_pending_reply example_ai example_platform ten_oclock example_id dry_run_world)
       = dry_run_outcome ''Nice post! https://sho.rt/x''"
    by simp
  show ?thesis
    using dry_facts(4,7) post res by (simp add: keep dry_plain dry_facts(8))
qed

end
